theory Spec2Isabelle
  imports Complex_Main "HOL-Library.Sublist" "HOL-Library.AList"
    "HOL-Library.Char_ord" "HOL-Library.List_Lexorder" "HOL-Library.Multiset"
    "HOL-Library.Log_Nat"
begin

section \<open>Python values, errors and dictionaries\<close>

text \<open>
  The adapter of \<^verbatim>\<open>bybit.py\<close> works on decoded JSON and on Python dictionaries.
  A Python value is a \<open>pyval\<close>; a dictionary is an association list in insertion order,
  read with \<open>map_of\<close> and written with \<open>AList.update\<close> (a present key keeps its place,
  a new key goes to the end, as in Python). A Python float is modelled by the real
  number it stands for; the sum of two floats is not their exact sum but the value of
  the machine addition, a function supplied from outside. Strings are lists of
  characters with code points below 256.
\<close>

datatype pyval =
    PNone
  | PBool bool
  | PInt int
  | PFloat real
  | PStr string
  | PList "pyval list"
  | PDict "(string \<times> pyval) list"

type_synonym pydict = "(string \<times> pyval) list"

datatype error =
    KeyError string
  | IndexError
  | TypeError
  | ValueError
  | NameError
  | AttributeError
  | ZeroDivisionError
  | TransportError

text \<open>Sequencing of computations that may raise: the first exception wins.\<close>

definition bindE :: "error + 'a \<Rightarrow> ('a \<Rightarrow> error + 'b) \<Rightarrow> error + 'b" where
  "bindE m f = (case m of Inl e \<Rightarrow> Inl e | Inr x \<Rightarrow> f x)"

text \<open>\<^verbatim>\<open>d[k]\<close> on a dictionary.\<close>

definition dict_get :: "(string \<times> 'v) list \<Rightarrow> string \<Rightarrow> error + 'v" where
  "dict_get d k = (case map_of d k of None \<Rightarrow> Inl (KeyError k) | Some v \<Rightarrow> Inr v)"

text \<open>\<^verbatim>\<open>v[k]\<close> with a string key on any value: only a dictionary can be subscripted so.\<close>

fun subscript :: "pyval \<Rightarrow> string \<Rightarrow> error + pyval" where
  "subscript (PDict d) k = dict_get d k"
| "subscript v k = Inl TypeError"

text \<open>\<^verbatim>\<open>xs[0]\<close> on a list.\<close>

fun first :: "'a list \<Rightarrow> error + 'a" where
  "first [] = Inl IndexError"
| "first (x # xs) = Inr x"

text \<open>\<^verbatim>\<open>s.endswith(suf)\<close>.\<close>

definition endswith :: "string \<Rightarrow> string \<Rightarrow> bool" where
  "endswith s suf = (length suf \<le> length s \<and> drop (length s - length suf) s = suf)"

text \<open>
  \<^verbatim>\<open>s.lower()\<close>. On the code points below 256 the upper-case letters are A to Z and
  the Latin-1 letters 192 to 222 without the multiplication sign 215; each is 32 below
  its lower-case letter.
\<close>

definition lower_char :: "char \<Rightarrow> char" where
  "lower_char c =
    (let n = (of_char c :: nat) in
     if (65 \<le> n \<and> n \<le> 90) \<or> (192 \<le> n \<and> n \<le> 222 \<and> n \<noteq> 215)
     then char_of (n + 32) else c)"

definition lower :: "string \<Rightarrow> string" where
  "lower s = map lower_char s"

text \<open>\<^verbatim>\<open>v.lower()\<close> on any value: only a string has the method.\<close>

fun py_lower :: "pyval \<Rightarrow> error + string" where
  "py_lower (PStr s) = Inr (lower s)"
| "py_lower v = Inl AttributeError"

text \<open>\<^verbatim>\<open>sub in s\<close> on strings: \<open>sub\<close> occurs in \<open>s\<close> as a contiguous piece.\<close>

fun str_in :: "string \<Rightarrow> string \<Rightarrow> bool" where
  "str_in sub [] = (sub = [])"
| "str_in sub (c # cs) = (prefix sub (c # cs) \<or> str_in sub cs)"

text \<open>
  \<^verbatim>\<open>sub in v\<close> for a string \<open>sub\<close> and any value: a substring test on a string,
  membership on a list, key membership on a dictionary, a \<^verbatim>\<open>TypeError\<close> otherwise.
\<close>

fun py_in :: "string \<Rightarrow> pyval \<Rightarrow> error + bool" where
  "py_in sub (PStr s) = Inr (str_in sub s)"
| "py_in sub (PList xs) = Inr (List.member xs (PStr sub))"
| "py_in sub (PDict d) = Inr (List.member (map fst d) sub)"
| "py_in sub v = Inl TypeError"

text \<open>Iterating over a value, as \<^verbatim>\<open>for e in v\<close>, \<^verbatim>\<open>map(f, v)\<close> and comprehensions do.\<close>

fun iterate :: "pyval \<Rightarrow> error + pyval list" where
  "iterate (PList xs) = Inr xs"
| "iterate (PDict d) = Inr (map (\<lambda>kv. PStr (fst kv)) d)"
| "iterate (PStr s) = Inr (map (\<lambda>c. PStr [c]) s)"
| "iterate v = Inl TypeError"

text \<open>\<^verbatim>\<open>list(map(f, xs))\<close> for an \<open>f\<close> that may raise: the first exception ends the map.\<close>

fun mapE :: "('a \<Rightarrow> error + 'b) \<Rightarrow> 'a list \<Rightarrow> error + 'b list" where
  "mapE f [] = Inr []"
| "mapE f (x # xs) = bindE (f x) (\<lambda>y. bindE (mapE f xs) (\<lambda>ys. Inr (y # ys)))"

text \<open>\<^verbatim>\<open>[e for e in xs if c(e)]\<close> for a condition that may raise.\<close>

fun filterE :: "('a \<Rightarrow> error + bool) \<Rightarrow> 'a list \<Rightarrow> error + 'a list" where
  "filterE c [] = Inr []"
| "filterE c (x # xs) =
    bindE (c x) (\<lambda>keep. bindE (filterE c xs) (\<lambda>ys. Inr (if keep then x # ys else ys)))"

text \<open>\<^verbatim>\<open>v == i\<close> for an integer \<open>i\<close>: booleans, integers and floats compare by value.\<close>

fun py_eq_int :: "pyval \<Rightarrow> int \<Rightarrow> bool" where
  "py_eq_int (PInt j) i = (j = i)"
| "py_eq_int (PFloat x) i = (x = of_int i)"
| "py_eq_int (PBool b) i = ((if b then 1 else 0) = i)"
| "py_eq_int v i = False"

text \<open>\<^verbatim>\<open>int(x)\<close> on a float rounds towards zero.\<close>

definition int_trunc :: "real \<Rightarrow> int" where
  "int_trunc x = (if 0 \<le> x then \<lfloor>x\<rfloor> else \<lceil>x\<rceil>)"

section \<open>Functions supplied from outside the adapter\<close>

text \<open>
  The adapter calls library functions whose code is not part of it; they are parameters
  of the model. \<open>float_of_str\<close> and \<open>int_of_str\<close> are \<^verbatim>\<open>float\<close> and \<^verbatim>\<open>int\<close> on a string
  (\<open>None\<close> for a \<^verbatim>\<open>ValueError\<close>), \<open>parse_timestamp\<close> is
  \<^verbatim>\<open>dateutil.parser.parse(s).timestamp()\<close>, \<open>ts_to_date\<close> renders a timestamp for the
  log (\<open>None\<close> when it raises), \<open>float_str\<close> is \<^verbatim>\<open>str\<close> on a float, \<open>urlencode\<close> is
  \<^verbatim>\<open>urllib.parse.urlencode\<close> and \<open>hmac_sha256_hex secret msg\<close> is the hex digest of
  HMAC-SHA256 of the UTF-8 bytes of \<open>msg\<close> under the UTF-8 bytes of \<open>secret\<close>.
  \<open>float_add\<close> is \<^verbatim>\<open>+\<close> on two floats: the addition of the machine, which rounds and
  is not associative.
\<close>

record pylib =
  float_of_str :: "string \<Rightarrow> real option"
  int_of_str :: "string \<Rightarrow> int option"
  parse_timestamp :: "string \<Rightarrow> real option"
  ts_to_date :: "real \<Rightarrow> string option"
  float_str :: "real \<Rightarrow> string"
  urlencode :: "pydict \<Rightarrow> string"
  hmac_sha256_hex :: "string \<Rightarrow> string \<Rightarrow> string"
  float_add :: "real \<Rightarrow> real \<Rightarrow> real"

text \<open>
  The pricing functions \<^verbatim>\<open>calc_long_pnl\<close> and \<^verbatim>\<open>calc_shrt_pnl\<close> of the module
  \<^verbatim>\<open>jitted\<close>: entry price, mark price, signed size, inversion flag and contract
  multiplier to a profit, or an exception.
\<close>

record jitted =
  calc_long_pnl :: "real \<Rightarrow> real \<Rightarrow> real \<Rightarrow> bool \<Rightarrow> real \<Rightarrow> error + real"
  calc_shrt_pnl :: "real \<Rightarrow> real \<Rightarrow> real \<Rightarrow> bool \<Rightarrow> real \<Rightarrow> error + real"

text \<open>
  The HTTP session together with the JSON decoding of the answer: method name, URL and
  query parameters to the decoded body, or an exception.
\<close>

type_synonym session = "string \<Rightarrow> string \<Rightarrow> pydict \<Rightarrow> error + pyval"

text \<open>\<^verbatim>\<open>float(v)\<close> and \<^verbatim>\<open>int(v)\<close>.\<close>

fun py_float :: "pylib \<Rightarrow> pyval \<Rightarrow> error + real" where
  "py_float lib (PFloat x) = Inr x"
| "py_float lib (PInt i) = Inr (of_int i)"
| "py_float lib (PBool b) = Inr (if b then 1 else 0)"
| "py_float lib (PStr s) =
    (case float_of_str lib s of None \<Rightarrow> Inl ValueError | Some x \<Rightarrow> Inr x)"
| "py_float lib v = Inl TypeError"

fun py_int :: "pylib \<Rightarrow> pyval \<Rightarrow> error + int" where
  "py_int lib (PInt i) = Inr i"
| "py_int lib (PFloat x) = Inr (int_trunc x)"
| "py_int lib (PBool b) = Inr (if b then 1 else 0)"
| "py_int lib (PStr s) =
    (case int_of_str lib s of None \<Rightarrow> Inl ValueError | Some i \<Rightarrow> Inr i)"
| "py_int lib v = Inl TypeError"

section \<open>The adapter's state\<close>

text \<open>
  The fields of a \<^verbatim>\<open>Bybit\<close> object that the modelled methods read or write. \<open>xk_inverse\<close>
  and \<open>xk_contract_multiplier\<close> are the two entries of \<^verbatim>\<open>self.xk\<close> handed to the pricing
  functions; \<open>config_inverse\<close> is \<^verbatim>\<open>self.config['inverse']\<close>.
\<close>

record bybit =
  symbol :: string
  key :: string
  secret :: string
  coin :: string
  quot :: string
  price :: real
  xk_inverse :: bool
  xk_contract_multiplier :: real
  hedge_mode :: bool
  market_type :: string
  inverse :: bool
  config_inverse :: bool
  endpoints :: "(string \<times> string) list"

definition base_endpoint :: string where
  "base_endpoint = ''https://api.bybit.com''"

section \<open>Market type resolution\<close>

definition linear_endpoints :: "(string \<times> string) list" where
  "linear_endpoints =
    [(''position'', ''/private/linear/position/list''),
     (''open_orders'', ''/private/linear/order/search''),
     (''create_order'', ''/private/linear/order/create''),
     (''cancel_order'', ''/private/linear/order/cancel''),
     (''ticks'', ''/public/linear/recent-trading-records''),
     (''websocket'', ''wss://stream.bybit.com/realtime_public''),
     (''created_at_key'', ''created_time'')]"

definition inverse_perpetual_endpoints :: "(string \<times> string) list" where
  "inverse_perpetual_endpoints =
    [(''position'', ''/v2/private/position/list''),
     (''open_orders'', ''/v2/private/order''),
     (''create_order'', ''/v2/private/order/create''),
     (''cancel_order'', ''/v2/private/order/cancel''),
     (''ticks'', ''/v2/public/trading-records''),
     (''websocket'', ''wss://stream.bybit.com/realtime''),
     (''created_at_key'', ''created_at'')]"

definition inverse_futures_endpoints :: "(string \<times> string) list" where
  "inverse_futures_endpoints =
    [(''position'', ''/futures/private/position/list''),
     (''open_orders'', ''/futures/private/order''),
     (''create_order'', ''/futures/private/order/create''),
     (''cancel_order'', ''/futures/private/order/cancel''),
     (''ticks'', ''/v2/public/trading-records''),
     (''websocket'', ''wss://stream.bybit.com/realtime''),
     (''created_at_key'', ''created_at'')]"

text \<open>
  \<^verbatim>\<open>Bybit.init_market_type\<close>: the branch is chosen by the suffix of the symbol, the
  endpoint table of the branch replaces the old one, and the balance endpoint is added
  last. Only the inverse-perpetual branch touches \<open>hedge_mode\<close>.
\<close>

definition init_market_type :: "bybit \<Rightarrow> bybit" where
  "init_market_type b =
    (let b' =
      (if endswith (symbol b) ''USDT'' then
         b\<lparr>market_type := ''linear_perpetual'', inverse := False, config_inverse := False,
           endpoints := linear_endpoints\<rparr>
       else
         (let b1 = b\<lparr>inverse := True, config_inverse := True\<rparr> in
          if endswith (symbol b) ''USD'' then
            b1\<lparr>market_type := ''inverse_perpetual'',
               endpoints := inverse_perpetual_endpoints, hedge_mode := False\<rparr>
          else
            b1\<lparr>market_type := ''inverse_futures'',
               endpoints := inverse_futures_endpoints\<rparr>))
     in b'\<lparr>endpoints := AList.update ''balance'' ''/v2/private/wallet/balance'' (endpoints b')\<rparr>)"

section \<open>Position-side inference\<close>

text \<open>
  \<^verbatim>\<open>Bybit.determine_pos_side\<close>. The order is a decoded vendor record; the link id is
  read again for the second test, as the source does.
\<close>

definition determine_pos_side :: "pyval \<Rightarrow> error + string" where
  "determine_pos_side ord =
    bindE (subscript ord ''side'') (\<lambda>sv.
    bindE (py_lower sv) (\<lambda>side.
      if side = ''buy'' then
        bindE (subscript ord ''order_link_id'') (\<lambda>l1.
        bindE (py_in ''entry'' l1) (\<lambda>is_entry.
          if is_entry then Inr ''long''
          else
            bindE (subscript ord ''order_link_id'') (\<lambda>l2.
            bindE (py_in ''close'' l2) (\<lambda>is_close.
              if is_close then Inr ''shrt'' else Inr ''unknown''))))
      else
        bindE (subscript ord ''order_link_id'') (\<lambda>l1.
        bindE (py_in ''entry'' l1) (\<lambda>is_entry.
          if is_entry then Inr ''shrt''
          else
            bindE (subscript ord ''order_link_id'') (\<lambda>l2.
            bindE (py_in ''close'' l2) (\<lambda>is_close.
              if is_close then Inr ''long'' else Inr ''both''))))))"

section \<open>Request signing\<close>

text \<open>
  Modelled from the spec: \<^verbatim>\<open>sort_dict_keys\<close> of the module \<^verbatim>\<open>passivbot\<close> is not among the
  sources; the spec says that the parameters are sorted by key.
\<close>

definition sort_dict_keys :: "pydict \<Rightarrow> pydict" where
  "sort_dict_keys d = sort_key fst d"

text \<open>
  The loop of \<^verbatim>\<open>Bybit.private_\<close> over the keys of the parameters: a value whose type is
  exactly \<^verbatim>\<open>bool\<close> or \<^verbatim>\<open>float\<close> is replaced by its text, in place.
\<close>

fun coerce_loop :: "pylib \<Rightarrow> string list \<Rightarrow> pydict \<Rightarrow> pydict" where
  "coerce_loop lib [] params = params"
| "coerce_loop lib (k # ks) params =
    coerce_loop lib ks
      (case map_of params k of
         Some (PBool b) \<Rightarrow> AList.update k (PStr (if b then ''true'' else ''false'')) params
       | Some (PFloat x) \<Rightarrow> AList.update k (PStr (float_str lib x)) params
       | _ \<Rightarrow> params)"

text \<open>
  The parameters that \<^verbatim>\<open>Bybit.private_\<close> sends, for the clock reading \<open>now\<close> (seconds):
  the key and the millisecond timestamp are put in, the values are coerced, and the
  signature of the sorted, URL-encoded parameters is attached.
\<close>

definition sign_params :: "pylib \<Rightarrow> bybit \<Rightarrow> real \<Rightarrow> pydict \<Rightarrow> pydict" where
  "sign_params lib b now params =
    (let timestamp = int_trunc (now * 1000);
         p1 = AList.update ''timestamp'' (PInt timestamp)
                (AList.update ''api_key'' (PStr (key b)) params);
         p2 = coerce_loop lib (map fst p1) p1;
         sign = hmac_sha256_hex lib (secret b) (urlencode lib (sort_dict_keys p2))
     in AList.update ''sign'' (PStr sign) p2)"

definition public_get :: "session \<Rightarrow> string \<Rightarrow> pydict \<Rightarrow> error + pyval" where
  "public_get session url params = session ''get'' (base_endpoint @ url) params"

text \<open>\<^verbatim>\<open>Bybit.private_\<close>, here \<open>private_call\<close>: the signed parameters go to the session.\<close>

definition private_call ::
  "pylib \<Rightarrow> session \<Rightarrow> bybit \<Rightarrow> real \<Rightarrow> string \<Rightarrow> string \<Rightarrow> pydict \<Rightarrow> error + pyval" where
  "private_call lib session b now method url params =
    session method (base_endpoint @ url) (sign_params lib b now params)"

definition private_get ::
  "pylib \<Rightarrow> session \<Rightarrow> bybit \<Rightarrow> real \<Rightarrow> string \<Rightarrow> pydict \<Rightarrow> error + pyval" where
  "private_get lib session b now url params = private_call lib session b now ''get'' url params"

definition private_post ::
  "pylib \<Rightarrow> session \<Rightarrow> bybit \<Rightarrow> real \<Rightarrow> string \<Rightarrow> pydict \<Rightarrow> error + pyval" where
  "private_post lib session b now url params = private_call lib session b now ''post'' url params"

section \<open>Tick normalization\<close>

definition date_to_ts :: "pylib \<Rightarrow> pyval \<Rightarrow> error + real" where
  "date_to_ts lib date =
    (case date of
       PStr s \<Rightarrow>
         (case parse_timestamp lib s of None \<Rightarrow> Inl ValueError | Some t \<Rightarrow> Inr (t * 1000))
     | _ \<Rightarrow> Inl TypeError)"

definition format_tick :: "pylib \<Rightarrow> pyval \<Rightarrow> error + pydict" where
  "format_tick lib tick =
    bindE (subscript tick ''id'') (\<lambda>i.
    bindE (py_int lib i) (\<lambda>trade_id.
    bindE (subscript tick ''price'') (\<lambda>p.
    bindE (py_float lib p) (\<lambda>pr.
    bindE (subscript tick ''qty'') (\<lambda>q.
    bindE (py_float lib q) (\<lambda>qty.
    bindE (subscript tick ''time'') (\<lambda>t.
    bindE (date_to_ts lib t) (\<lambda>ts.
    bindE (subscript tick ''side'') (\<lambda>sd.
      Inr [(''trade_id'', PInt trade_id),
           (''price'', PFloat pr),
           (''qty'', PFloat qty),
           (''timestamp'', PFloat ts),
           (''is_buyer_maker'', PBool (sd = PStr ''Sell''))])))))))))"

definition tick_params :: "bybit \<Rightarrow> int option \<Rightarrow> pydict" where
  "tick_params b from_id =
    (let params = [(''symbol'', PStr (symbol b)), (''limit'', PInt 1000)]
     in case from_id of
          None \<Rightarrow> params
        | Some f \<Rightarrow> AList.update ''from'' (PInt (max 0 f)) params)"

text \<open>
  The second \<^verbatim>\<open>try\<close> block of \<^verbatim>\<open>Bybit.fetch_ticks\<close>: the whole batch is formatted, and
  with \<open>do_print\<close> the first trade is read for the log line.
\<close>

definition format_batch :: "pylib \<Rightarrow> pyval \<Rightarrow> bool \<Rightarrow> error + pydict list" where
  "format_batch lib ticks do_print =
    bindE (subscript ticks ''result'') (\<lambda>r.
    bindE (iterate r) (\<lambda>recs.
    bindE (mapE (format_tick lib) recs) (\<lambda>trades.
      if do_print then
        bindE (first trades) (\<lambda>t0.
        bindE (dict_get t0 ''trade_id'') (\<lambda>tid.
        bindE (first trades) (\<lambda>t1.
        bindE (dict_get t1 ''timestamp'') (\<lambda>ts.
        bindE (py_float lib ts) (\<lambda>x.
          (case ts_to_date lib (x / 1000) of
             None \<Rightarrow> Inl ValueError
           | Some d \<Rightarrow> Inr trades))))))
      else Inr trades)))"

text \<open>
  \<^verbatim>\<open>Bybit.fetch_ticks\<close>: an exception of the fetch gives the empty list, and so does an
  exception anywhere in the second block.
\<close>

definition fetch_ticks ::
  "pylib \<Rightarrow> session \<Rightarrow> bybit \<Rightarrow> int option \<Rightarrow> bool \<Rightarrow> pydict list" where
  "fetch_ticks lib session b from_id do_print =
    (let params = tick_params b from_id
     in case bindE (dict_get (endpoints b) ''ticks'')
               (\<lambda>url. public_get session url params) of
          Inl e \<Rightarrow> []
        | Inr ticks \<Rightarrow>
            (case format_batch lib ticks do_print of
               Inl e \<Rightarrow> []
             | Inr trades \<Rightarrow> trades))"

text \<open>
  \<^verbatim>\<open>Bybit.standardize_websocket_ticks\<close>: each record is converted under its own
  \<^verbatim>\<open>try\<close>; a record that raises is left out.
\<close>

definition ws_tick :: "pylib \<Rightarrow> pyval \<Rightarrow> error + pydict" where
  "ws_tick lib e =
    bindE (subscript e ''price'') (\<lambda>p.
    bindE (py_float lib p) (\<lambda>pr.
    bindE (subscript e ''size'') (\<lambda>q.
    bindE (py_float lib q) (\<lambda>qty.
    bindE (subscript e ''side'') (\<lambda>sd.
      Inr [(''price'', PFloat pr),
           (''qty'', PFloat qty),
           (''is_buyer_maker'', PBool (sd = PStr ''Sell''))])))))"

fun ws_loop :: "pylib \<Rightarrow> pyval list \<Rightarrow> pydict list \<Rightarrow> pydict list" where
  "ws_loop lib [] ticks = ticks"
| "ws_loop lib (e # es) ticks =
    ws_loop lib es (case ws_tick lib e of Inl ex \<Rightarrow> ticks | Inr t \<Rightarrow> ticks @ [t])"

definition standardize_websocket_ticks :: "pylib \<Rightarrow> pyval \<Rightarrow> error + pydict list" where
  "standardize_websocket_ticks lib data =
    bindE (subscript data ''data'') (\<lambda>d.
    bindE (iterate d) (\<lambda>es. Inr (ws_loop lib es [])))"

section \<open>Position reconciliation\<close>

record subpos =
  pos_size :: real
  pos_price :: real
  pos_leverage :: real
  pos_liquidation_price :: real
  pos_upnl :: real

record position =
  long :: subpos
  shrt :: subpos
  wallet_balance :: real
  equity :: real

text \<open>
  \<^verbatim>\<open>asyncio.gather\<close> of two calls: both answers, or the exception of a call that
  raised.
\<close>

definition gather :: "error + 'a \<Rightarrow> error + 'b \<Rightarrow> error + ('a \<times> 'b)" where
  "gather x y = bindE x (\<lambda>a. bindE y (\<lambda>b. Inr (a, b)))"

text \<open>The placeholder of the side that an inverse perpetual position does not have.\<close>

definition zero_pos :: pyval where
  "zero_pos = PDict [(''size'', PFloat 0), (''entry_price'', PFloat 0),
                     (''leverage'', PFloat 0), (''liq_price'', PFloat 0)]"

text \<open>\<^verbatim>\<open>[e for e in fetched['result'] if e['side'] == side][0]\<close>\<close>

definition select_by_side :: "pyval \<Rightarrow> string \<Rightarrow> error + pyval" where
  "select_by_side fetched side =
    bindE (subscript fetched ''result'') (\<lambda>r.
    bindE (iterate r) (\<lambda>es.
    bindE (filterE (\<lambda>e. bindE (subscript e ''side'') (\<lambda>sd. Inr (sd = PStr side))) es)
      first))"

text \<open>\<^verbatim>\<open>[e['data'] for e in fetched['result'] if e['data']['position_idx'] == i][0]\<close>\<close>

definition select_by_idx :: "pyval \<Rightarrow> int \<Rightarrow> error + pyval" where
  "select_by_idx fetched i =
    bindE (subscript fetched ''result'') (\<lambda>r.
    bindE (iterate r) (\<lambda>es.
    bindE (filterE (\<lambda>e. bindE (subscript e ''data'') (\<lambda>d.
                        bindE (subscript d ''position_idx'') (\<lambda>idx.
                          Inr (py_eq_int idx i)))) es) (\<lambda>sel.
    bindE (mapE (\<lambda>e. subscript e ''data'') sel)
      first)))"

text \<open>\<^verbatim>\<open>float(bal['result'][c]['wallet_balance'])\<close>\<close>

definition read_wallet_balance :: "pylib \<Rightarrow> pyval \<Rightarrow> string \<Rightarrow> error + real" where
  "read_wallet_balance lib bal c =
    bindE (subscript bal ''result'') (\<lambda>r.
    bindE (subscript r c) (\<lambda>w.
    bindE (subscript w ''wallet_balance'') (\<lambda>v.
      py_float lib v)))"

definition float_field :: "pylib \<Rightarrow> pyval \<Rightarrow> string \<Rightarrow> error + real" where
  "float_field lib r k = bindE (subscript r k) (\<lambda>v. py_float lib v)"

text \<open>
  The common tail of \<^verbatim>\<open>Bybit.fetch_position\<close>, from the two selected records and the
  wallet balance to the position: the short size is negated, the profit of a side is
  priced only when its entry price is not zero, the two profits are added first, and
  the equity is the balance plus that sum. Both additions are additions of floats.
\<close>

definition build_position ::
  "jitted \<Rightarrow> pylib \<Rightarrow> bybit \<Rightarrow> real \<Rightarrow> pyval \<Rightarrow> pyval \<Rightarrow> error + position" where
  "build_position jit lib b wb long_pos shrt_pos =
    bindE (float_field lib long_pos ''size'') (\<lambda>lsize.
    bindE (float_field lib long_pos ''entry_price'') (\<lambda>lprice.
    bindE (float_field lib long_pos ''leverage'') (\<lambda>llev.
    bindE (float_field lib long_pos ''liq_price'') (\<lambda>lliq.
    bindE (float_field lib shrt_pos ''size'') (\<lambda>ssize.
    bindE (float_field lib shrt_pos ''entry_price'') (\<lambda>sprice.
    bindE (float_field lib shrt_pos ''leverage'') (\<lambda>slev.
    bindE (float_field lib shrt_pos ''liq_price'') (\<lambda>sliq.
    bindE (if lprice \<noteq> 0
           then calc_long_pnl jit lprice (price b) lsize (xk_inverse b)
                  (xk_contract_multiplier b)
           else Inr 0) (\<lambda>lupnl.
    bindE (if sprice \<noteq> 0
           then calc_shrt_pnl jit sprice (price b) (- ssize) (xk_inverse b)
                  (xk_contract_multiplier b)
           else Inr 0) (\<lambda>supnl.
      (let upnl = float_add lib lupnl supnl
       in Inr \<lparr>long = \<lparr>pos_size = lsize, pos_price = lprice, pos_leverage = llev,
                        pos_liquidation_price = lliq, pos_upnl = lupnl\<rparr>,
               shrt = \<lparr>pos_size = - ssize, pos_price = sprice, pos_leverage = slev,
                        pos_liquidation_price = sliq, pos_upnl = supnl\<rparr>,
               wallet_balance = wb,
               equity = float_add lib wb upnl\<rparr>)))))))))))"

text \<open>
  \<^verbatim>\<open>Bybit.fetch_position\<close>. \<open>t_pos\<close> and \<open>t_bal\<close> are the clock readings of the two
  signed calls. With a market type that is none of the three, neither record is
  bound and the use of \<^verbatim>\<open>long_pos\<close> raises.
\<close>

definition fetch_position ::
  "jitted \<Rightarrow> pylib \<Rightarrow> session \<Rightarrow> bybit \<Rightarrow> real \<Rightarrow> real \<Rightarrow> error + position" where
  "fetch_position jit lib session b t_pos t_bal =
    (if market_type b = ''linear_perpetual'' then
       bindE (dict_get (endpoints b) ''position'') (\<lambda>purl.
       bindE (dict_get (endpoints b) ''balance'') (\<lambda>burl.
       bindE (gather
                (private_get lib session b t_pos purl [(''symbol'', PStr (symbol b))])
                (private_get lib session b t_bal burl [(''coin'', PStr (quot b))]))
         (\<lambda>(fetched, bal).
       bindE (select_by_side fetched ''Buy'') (\<lambda>long_pos.
       bindE (select_by_side fetched ''Sell'') (\<lambda>shrt_pos.
       bindE (read_wallet_balance lib bal (quot b)) (\<lambda>wb.
         build_position jit lib b wb long_pos shrt_pos))))))
     else
       bindE (dict_get (endpoints b) ''position'') (\<lambda>purl.
       bindE (dict_get (endpoints b) ''balance'') (\<lambda>burl.
       bindE (gather
                (private_get lib session b t_pos purl [(''symbol'', PStr (symbol b))])
                (private_get lib session b t_bal burl [(''coin'', PStr (coin b))]))
         (\<lambda>(fetched, bal).
       bindE (read_wallet_balance lib bal (coin b)) (\<lambda>wb.
         if market_type b = ''inverse_perpetual'' then
           bindE (subscript fetched ''result'') (\<lambda>r.
           bindE (subscript r ''side'') (\<lambda>sd.
             if sd = PStr ''Buy''
             then build_position jit lib b wb r zero_pos
             else build_position jit lib b wb zero_pos r))
         else if market_type b = ''inverse_futures'' then
           bindE (select_by_idx fetched 1) (\<lambda>long_pos.
           bindE (select_by_idx fetched 2) (\<lambda>shrt_pos.
             build_position jit lib b wb long_pos shrt_pos))
         else Inl NameError)))))"

section \<open>Order cancellation\<close>

text \<open>
  \<^verbatim>\<open>Bybit.execute_cancellation\<close>: the answer of the vendor is bound to a name and not
  read; the record is built from the order that was passed in.
\<close>

definition execute_cancellation ::
  "pylib \<Rightarrow> session \<Rightarrow> bybit \<Rightarrow> real \<Rightarrow> pyval \<Rightarrow> error + pydict" where
  "execute_cancellation lib session b now order =
    bindE (dict_get (endpoints b) ''cancel_order'') (\<lambda>url.
    bindE (subscript order ''order_id'') (\<lambda>oid.
    bindE (private_post lib session b now url
             [(''symbol'', PStr (symbol b)), (''order_id'', oid)]) (\<lambda>resp.
    bindE (subscript order ''side'') (\<lambda>side.
    bindE (subscript order ''position_side'') (\<lambda>pside.
    bindE (subscript order ''qty'') (\<lambda>qty.
    bindE (subscript order ''price'') (\<lambda>pr.
      Inr [(''symbol'', PStr (symbol b)),
           (''side'', side),
           (''position_side'', pside),
           (''qty'', qty),
           (''price'', pr)])))))))"

section \<open>The signing steps as the specification words them\<close>

text \<open>
  The specification lists the steps of signing: put in the key and the millisecond
  timestamp, turn every boolean into \<open>true\<close> or \<open>false\<close> and every float into its text,
  sort by key, URL-encode, take the HMAC-SHA256 digest under the secret, attach it as
  \<open>sign\<close>. \<open>signing_steps\<close> follows these words; \<open>sign_params\<close> above follows the code.
\<close>

fun coerce_value :: "pylib \<Rightarrow> pyval \<Rightarrow> pyval" where
  "coerce_value lib (PBool b) = PStr (if b then ''true'' else ''false'')"
| "coerce_value lib (PFloat x) = PStr (float_str lib x)"
| "coerce_value lib v = v"

definition signing_steps :: "pylib \<Rightarrow> string \<Rightarrow> string \<Rightarrow> int \<Rightarrow> pydict \<Rightarrow> pydict" where
  "signing_steps lib api_key secret_key timestamp params =
    (let injected = AList.update ''timestamp'' (PInt timestamp)
                      (AList.update ''api_key'' (PStr api_key) params);
         coerced = map (\<lambda>kv. (fst kv, coerce_value lib (snd kv))) injected;
         sorted_params = sort_key fst coerced;
         encoded = urlencode lib sorted_params;
         digest = hmac_sha256_hex lib secret_key encoded
     in AList.update ''sign'' (PStr digest) coerced)"

section \<open>Values inside a vendor answer\<close>

text \<open>
  All values that occur in a value, at any depth: the value itself, the elements of a
  list, the values of a dictionary.
\<close>

primrec subvalues :: "pyval \<Rightarrow> pyval list" where
  "subvalues PNone = [PNone]"
| "subvalues (PBool b) = [PBool b]"
| "subvalues (PInt i) = [PInt i]"
| "subvalues (PFloat x) = [PFloat x]"
| "subvalues (PStr s) = [PStr s]"
| "subvalues (PList xs) = PList xs # concat (map subvalues xs)"
| "subvalues (PDict d) = PDict d # concat (map snd (map (map_prod id subvalues) d))"

text \<open>
  Every \<open>size\<close> field that an answer carries, at any depth, reads as a number that is
  not negative.
\<close>

definition sizes_nonneg :: "pylib \<Rightarrow> pyval \<Rightarrow> bool" where
  "sizes_nonneg lib resp =
    list_all (\<lambda>r. case float_field lib r ''size'' of Inl e \<Rightarrow> True | Inr x \<Rightarrow> 0 \<le> x)
      (subvalues resp)"

section \<open>Addition of doubles\<close>

text \<open>
  The addition of IEEE 754 binary64 numbers, for sums within the range of the finite
  doubles: the exact sum is rounded to the nearest multiple of the unit in the last of
  its 53 places, and a tie goes to the even multiple. \<open>double_exponent a\<close> is the
  exponent of the power of two at or below \<open>a > 0\<close>, not below that of the smallest
  normal number.
\<close>

definition round_half_even :: "real \<Rightarrow> int" where
  "round_half_even q =
    (let f = \<lfloor>q\<rfloor>; r = q - of_int f
     in if r < 1 / 2 then f else if 1 / 2 < r then f + 1 else if even f then f else f + 1)"

definition pow2 :: "int \<Rightarrow> real" where
  "pow2 e = (if 0 \<le> e then 2 ^ nat e else 1 / 2 ^ nat (- e))"

definition double_exponent :: "real \<Rightarrow> int" where
  "double_exponent a =
    (if 1 \<le> a then bitlen \<lfloor>a\<rfloor> - 1 else max (- 1022) (- bitlen (\<lceil>1 / a\<rceil> - 1)))"

definition round_double :: "real \<Rightarrow> real" where
  "round_double x =
    (if x = 0 then 0
     else (let u = pow2 (double_exponent \<bar>x\<bar> - 52)
           in u * of_int (round_half_even (x / u))))"

definition double_add :: "real \<Rightarrow> real \<Rightarrow> real" where
  "double_add x y = round_double (x + y)"

section \<open>Sample inputs\<close>

text \<open>
  Concrete inputs on which the definitions are evaluated. \<open>sample_lib\<close> and
  \<open>sample_jit\<close> stand in for the library functions on the few arguments the samples
  use, with the addition of doubles for the addition of floats; no general statement
  below depends on them.
\<close>

definition sample_lib :: pylib where
  "sample_lib =
    \<lparr>float_of_str = map_of [(''100.5'', 100.5), (''101'', 101), (''2'', 2), (''3'', 3), (''0'', 0)],
     int_of_str = map_of [(''42'', 42), (''43'', 43)],
     parse_timestamp = map_of [(''2021-01-01T00:00:00Z'', 1609459200)],
     ts_to_date = (\<lambda>t. Some ''2021-01-01T00:00:00''),
     float_str = (\<lambda>x. if x = 0 then ''0.0'' else ''1.0''),
     urlencode = (\<lambda>d. concat (map fst d)),
     hmac_sha256_hex = (\<lambda>k m. k @ m),
     float_add = double_add\<rparr>"

definition sample_jit :: jitted where
  "sample_jit =
    \<lparr>calc_long_pnl = (\<lambda>entry mark sz inv cm. Inr (sz * (mark - entry) * cm)),
     calc_shrt_pnl = (\<lambda>entry mark sz inv cm. Inr (sz * (mark - entry) * cm))\<rparr>"

definition sample_adapter :: bybit where
  "sample_adapter = init_market_type
    \<lparr>symbol = ''BTCUSD'', key = ''k'', secret = ''s'', coin = ''BTC'', quot = ''USD'',
     price = 100, xk_inverse = True, xk_contract_multiplier = 1, hedge_mode = False,
     market_type = [], inverse = False, config_inverse = False, endpoints = []\<rparr>"

definition futures_adapter :: bybit where
  "futures_adapter = init_market_type
    \<lparr>symbol = ''BTCUSDZ21'', key = ''k'', secret = ''s'', coin = ''BTC'', quot = ''USD'',
     price = 100, xk_inverse = True, xk_contract_multiplier = 1, hedge_mode = True,
     market_type = [], inverse = False, config_inverse = False, endpoints = []\<rparr>"

text \<open>
  Tick records of the REST interface: a well-formed one, and one whose price is not a
  number.
\<close>

definition good_tick :: pyval where
  "good_tick = PDict [(''id'', PInt 42), (''price'', PStr ''100.5''), (''qty'', PStr ''2''),
                      (''time'', PStr ''2021-01-01T00:00:00Z''), (''side'', PStr ''Sell'')]"

definition bad_tick :: pyval where
  "bad_tick = PDict [(''id'', PInt 43), (''price'', PStr ''abc''), (''qty'', PStr ''2''),
                     (''time'', PStr ''2021-01-01T00:00:00Z''), (''side'', PStr ''Buy'')]"

definition mixed_session :: session where
  "mixed_session m u p = Inr (PDict [(''result'', PList [good_tick, bad_tick, good_tick])])"

definition failing_session :: session where
  "failing_session m u p = Inl TransportError"

definition empty_session :: session where
  "empty_session m u p = Inr (PDict [(''result'', PList [])])"

text \<open>
  Position answers of an inverse futures market, with both indices and with index 1
  only, and the balance answer.
\<close>

definition balance_answer :: pyval where
  "balance_answer =
    PDict [(''result'', PDict [(''BTC'', PDict [(''wallet_balance'', PFloat 2)])])]"

definition long_record :: pyval where
  "long_record = PDict [(''position_idx'', PInt 1), (''side'', PStr ''Buy''),
                        (''size'', PInt 10), (''entry_price'', PStr ''101''),
                        (''leverage'', PInt 3), (''liq_price'', PStr ''0'')]"

definition shrt_record :: pyval where
  "shrt_record = PDict [(''position_idx'', PInt 2), (''side'', PStr ''Sell''),
                        (''size'', PInt 3), (''entry_price'', PStr ''0''),
                        (''leverage'', PInt 3), (''liq_price'', PStr ''0'')]"

definition both_sides_answer :: pyval where
  "both_sides_answer =
    PDict [(''result'', PList [PDict [(''data'', long_record)], PDict [(''data'', shrt_record)]])]"

definition long_only_answer :: pyval where
  "long_only_answer = PDict [(''result'', PList [PDict [(''data'', long_record)]])]"

definition both_sides_session :: session where
  "both_sides_session m u p =
    (if endswith u ''balance'' then Inr balance_answer else Inr both_sides_answer)"

definition long_only_session :: session where
  "long_only_session m u p =
    (if endswith u ''balance'' then Inr balance_answer else Inr long_only_answer)"

text \<open>
  An inverse futures position with both entry prices set, a balance of \<open>2 ^ 53\<close>, and
  pricing functions that return one half and three quarters.
\<close>

definition fraction_jit :: jitted where
  "fraction_jit =
    \<lparr>calc_long_pnl = (\<lambda>entry mark sz inv cm. Inr (1 / 2)),
     calc_shrt_pnl = (\<lambda>entry mark sz inv cm. Inr (3 / 4))\<rparr>"

definition large_balance_answer :: pyval where
  "large_balance_answer =
    PDict [(''result'',
            PDict [(''BTC'', PDict [(''wallet_balance'', PInt 9007199254740992)])])]"

definition priced_shrt_record :: pyval where
  "priced_shrt_record = PDict [(''position_idx'', PInt 2), (''side'', PStr ''Sell''),
                               (''size'', PInt 3), (''entry_price'', PStr ''101''),
                               (''leverage'', PInt 3), (''liq_price'', PStr ''0'')]"

definition priced_answer :: pyval where
  "priced_answer =
    PDict [(''result'', PList [PDict [(''data'', long_record)],
                               PDict [(''data'', priced_shrt_record)]])]"

definition large_balance_session :: session where
  "large_balance_session m u p =
    (if endswith u ''balance'' then Inr large_balance_answer else Inr priced_answer)"

text \<open>
  A trade record of the WebSocket stream, the answer of the vendor to the
  cancellation of an order it no longer has, a resting order, and the parameters of an
  order request.
\<close>

definition ws_record :: pyval where
  "ws_record = PDict [(''timestamp'', PStr ''2021-01-01T00:00:00.000Z''),
                      (''trade_time_ms'', PInt 1609459200000),
                      (''symbol'', PStr ''BTCUSD''), (''side'', PStr ''Sell''),
                      (''size'', PInt 2), (''price'', PFloat 100.5),
                      (''tick_direction'', PStr ''PlusTick''),
                      (''trade_id'', PStr ''a-b-c'')]"

definition ws_message :: pyval where
  "ws_message = PDict [(''topic'', PStr ''trade.BTCUSD''), (''data'', PList [ws_record])]"

definition not_found_answer :: pyval where
  "not_found_answer = PDict [(''ret_code'', PInt 20001),
                             (''ret_msg'', PStr ''order not exists or too late to cancel''),
                             (''result'', PNone)]"

definition not_found_session :: session where
  "not_found_session m u p = Inr not_found_answer"

definition resting_order :: pyval where
  "resting_order = PDict [(''order_id'', PStr ''o-1''), (''custom_id'', PStr ''long_entry_7''),
                          (''symbol'', PStr ''BTCUSD''), (''price'', PFloat 100.5),
                          (''qty'', PFloat 2), (''side'', PStr ''buy''),
                          (''position_side'', PStr ''long''),
                          (''timestamp'', PFloat 1609459200000)]"

definition order_params :: pydict where
  "order_params = [(''symbol'', PStr ''BTCUSD''), (''close_on_trigger'', PBool False),
                   (''qty'', PFloat 0), (''position_idx'', PInt 0)]"

section \<open>Basic facts\<close>

lemma bindE_Inr [simp]: "bindE (Inr x) f = f x"
  by (simp add: bindE_def)

lemma bindE_Inl [simp]: "bindE (Inl e) f = Inl e"
  by (simp add: bindE_def)

lemma bindE_eq_Inr: "bindE m f = Inr y \<longleftrightarrow> (\<exists>x. m = Inr x \<and> f x = Inr y)"
  by (cases m) auto

lemma dict_get_Some: "map_of d k = Some v \<Longrightarrow> dict_get d k = Inr v"
  by (simp add: dict_get_def)

lemma str_in_sublist: "str_in sub s = sublist sub s"
  by (induction s) (auto simp: sublist_Cons_right)

lemma sublist_eval: "sublist sub s = str_in sub s" by (simp add: str_in_sublist)

lemma filterE_subset: "filterE c xs = Inr ys \<Longrightarrow> set ys \<subseteq> set xs"
  by (induction xs arbitrary: ys) (auto simp: bindE_eq_Inr split: if_splits)

lemma filterE_cond: "filterE c xs = Inr ys \<Longrightarrow> y \<in> set ys \<Longrightarrow> c y = Inr True"
  by (induction xs arbitrary: ys) (auto simp: bindE_eq_Inr split: if_splits)

lemma filterE_all_False:
  "\<forall>e \<in> set es. c e = Inr False \<Longrightarrow> filterE c es = Inr []"
  by (induction es) simp_all

lemma filterE_total:
  "\<forall>e \<in> set es. \<exists>k. c e = Inr k \<Longrightarrow> \<exists>ys. filterE c es = Inr ys"
proof (induction es)
  case Nil
  show ?case by simp
next
  case (Cons e es)
  then obtain k ys where "c e = Inr k" "filterE c es = Inr ys" by auto
  then show ?case by simp
qed

lemma first_mem: "first xs = Inr x \<Longrightarrow> x \<in> set xs"
  by (cases xs) auto

lemma first_cases: "first xs = Inl IndexError \<or> (\<exists>x. first xs = Inr x)"
  by (cases xs) simp_all

lemma mapE_mem: "mapE f xs = Inr ys \<Longrightarrow> y \<in> set ys \<Longrightarrow> \<exists>x \<in> set xs. f x = Inr y"
  by (induction xs arbitrary: ys) (auto simp: bindE_eq_Inr)

lemma mapE_total:
  "\<forall>e \<in> set es. \<exists>y. f e = Inr y \<Longrightarrow> \<exists>ys. mapE f es = Inr ys"
proof (induction es)
  case Nil
  show ?case by simp
next
  case (Cons e es)
  then obtain y ys where "f e = Inr y" "mapE f es = Inr ys" by auto
  then show ?case by simp
qed

lemma iterate_subscript:
  assumes "iterate r = Inr es" and "e \<in> set es" and "subscript e k = Inr x"
  shows "r = PList es"
  using assms by (cases r) auto

lemma sample_adapter_fields:
  "market_type sample_adapter = ''inverse_perpetual''"
  "endpoints sample_adapter = AList.update ''balance'' ''/v2/private/wallet/balance'' inverse_perpetual_endpoints"
  "symbol sample_adapter = ''BTCUSD''"
  by (simp_all add: sample_adapter_def init_market_type_def endswith_def Let_def)

lemma futures_adapter_fields:
  "market_type futures_adapter = ''inverse_futures''"
  "endpoints futures_adapter = AList.update ''balance'' ''/v2/private/wallet/balance'' inverse_futures_endpoints"
  "coin futures_adapter = ''BTC''"
  "price futures_adapter = 100"
  "xk_inverse futures_adapter = True"
  "xk_contract_multiplier futures_adapter = 1"
  "symbol futures_adapter = ''BTCUSDZ21''"
  by (simp_all add: futures_adapter_def init_market_type_def endswith_def Let_def)

section \<open>Properties of market type resolution\<close>

lemma endswith_suffix: "endswith s suf = suffix suf s"
proof
  assume "endswith s suf"
  then have "s = take (length s - length suf) s @ suf"
    by (metis append_take_drop_id endswith_def)
  then show "suffix suf s"
    by (metis suffixI)
next
  assume "suffix suf s"
  then obtain p where "s = p @ suf"
    by (auto simp: suffix_def)
  then show "endswith s suf"
    by (simp add: endswith_def)
qed

lemma market_type_init:
  "market_type (init_market_type b) =
    (if endswith (symbol b) ''USDT'' then ''linear_perpetual''
     else if endswith (symbol b) ''USD'' then ''inverse_perpetual''
     else ''inverse_futures'')"
  by (simp add: init_market_type_def Let_def)

text \<open>
  Claim C7. For every symbol, the resolved market type is \<open>linear_perpetual\<close> exactly
  when the symbol ends with USDT, \<open>inverse_perpetual\<close> exactly when it ends with USD
  and not with USDT, and \<open>inverse_futures\<close> exactly in the remaining cases.
\<close>

theorem init_market_type_by_suffix:
  "(market_type (init_market_type b) = ''linear_perpetual'') = suffix ''USDT'' (symbol b)
   \<and> (market_type (init_market_type b) = ''inverse_perpetual'')
       = (suffix ''USD'' (symbol b) \<and> \<not> suffix ''USDT'' (symbol b))
   \<and> (market_type (init_market_type b) = ''inverse_futures'')
       = (\<not> suffix ''USDT'' (symbol b) \<and> \<not> suffix ''USD'' (symbol b))"
  by (simp add: market_type_init endswith_suffix)

section \<open>Properties of position-side inference\<close>

lemma determine_pos_side_strings:
  assumes "map_of d ''side'' = Some (PStr s)"
    and "map_of d ''order_link_id'' = Some (PStr l)"
  shows "determine_pos_side (PDict d) =
    Inr (if lower s = ''buy''
         then (if str_in ''entry'' l then ''long''
               else if str_in ''close'' l then ''shrt'' else ''unknown'')
         else (if str_in ''entry'' l then ''shrt''
               else if str_in ''close'' l then ''long'' else ''both''))"
  using assms by (simp add: determine_pos_side_def dict_get_Some)

text \<open>
  Claim C6. For a resting order whose side and link id are strings, the inferred
  position side follows the table: buy with an entry tag gives \<open>long\<close>, buy with a close
  tag gives \<open>shrt\<close>, sell with an entry tag gives \<open>shrt\<close>, sell with a close tag gives
  \<open>long\<close>; with neither tag the result is the sentinel \<open>unknown\<close> (buy) or \<open>both\<close>
  (otherwise), and no error is raised. A tag is recognised as a piece of the link id,
  and the entry tag is looked for first.
\<close>

theorem determine_pos_side_table:
  assumes "map_of d ''side'' = Some (PStr s)"
    and "map_of d ''order_link_id'' = Some (PStr l)"
  shows "(lower s = ''buy'' \<and> sublist ''entry'' l
            \<longrightarrow> determine_pos_side (PDict d) = Inr ''long'')
       \<and> (lower s = ''buy'' \<and> sublist ''close'' l \<and> \<not> sublist ''entry'' l
            \<longrightarrow> determine_pos_side (PDict d) = Inr ''shrt'')
       \<and> (lower s = ''sell'' \<and> sublist ''entry'' l
            \<longrightarrow> determine_pos_side (PDict d) = Inr ''shrt'')
       \<and> (lower s = ''sell'' \<and> sublist ''close'' l \<and> \<not> sublist ''entry'' l
            \<longrightarrow> determine_pos_side (PDict d) = Inr ''long'')
       \<and> (\<not> sublist ''entry'' l \<and> \<not> sublist ''close'' l
            \<longrightarrow> determine_pos_side (PDict d)
                  = Inr (if lower s = ''buy'' then ''unknown'' else ''both''))"
  using determine_pos_side_strings [OF assms] by (simp add: str_in_sublist)

theorem determine_pos_side_table_witness:
  "determine_pos_side (PDict [(''side'', PStr ''Buy''), (''order_link_id'', PStr ''long_entry_7'')])
     = Inr ''long''
   \<and> determine_pos_side (PDict [(''side'', PStr ''Buy''), (''order_link_id'', PStr ''shrt_close_7'')])
     = Inr ''shrt''
   \<and> determine_pos_side (PDict [(''side'', PStr ''Sell''), (''order_link_id'', PStr ''shrt_entry_7'')])
     = Inr ''shrt''
   \<and> determine_pos_side (PDict [(''side'', PStr ''Sell''), (''order_link_id'', PStr ''long_close_7'')])
     = Inr ''long''
   \<and> determine_pos_side (PDict [(''side'', PStr ''Buy''), (''order_link_id'', PStr ''manual'')])
     = Inr ''unknown''
   \<and> determine_pos_side (PDict [(''side'', PStr ''Sell''), (''order_link_id'', PStr ''manual'')])
     = Inr ''both''"
proof -
  have b: "lower ''Buy'' = ''buy''" and s: "lower ''Sell'' = ''sell''"
    by code_simp+
  note t = determine_pos_side_table
  show ?thesis
    using t [of "[(''side'', PStr ''Buy''), (''order_link_id'', PStr ''long_entry_7'')]" "''Buy''" "''long_entry_7''"]
      t [of "[(''side'', PStr ''Buy''), (''order_link_id'', PStr ''shrt_close_7'')]" "''Buy''" "''shrt_close_7''"]
      t [of "[(''side'', PStr ''Sell''), (''order_link_id'', PStr ''shrt_entry_7'')]" "''Sell''" "''shrt_entry_7''"]
      t [of "[(''side'', PStr ''Sell''), (''order_link_id'', PStr ''long_close_7'')]" "''Sell''" "''long_close_7''"]
      t [of "[(''side'', PStr ''Buy''), (''order_link_id'', PStr ''manual'')]" "''Buy''" "''manual''"]
      t [of "[(''side'', PStr ''Sell''), (''order_link_id'', PStr ''manual'')]" "''Sell''" "''manual''"]
    by (simp add: b s sublist_eval)
qed

section \<open>Properties of request signing\<close>

lemma map_of_append_fresh:
  "k \<notin> fst ` set done \<Longrightarrow> map_of (done @ (k, v) # rest) k = Some v"
  by (induction "done") auto

lemma update_append_fresh:
  "k \<notin> fst ` set done \<Longrightarrow>
    AList.update k w (done @ (k, v) # rest) = done @ (k, w) # rest"
  by (induction "done") auto

lemma coerce_step:
  assumes "k \<notin> fst ` set done"
  shows "(case map_of (done @ (k, v) # rest) k of
            Some (PBool b) \<Rightarrow>
              AList.update k (PStr (if b then ''true'' else ''false'')) (done @ (k, v) # rest)
          | Some (PFloat x) \<Rightarrow> AList.update k (PStr (float_str lib x)) (done @ (k, v) # rest)
          | _ \<Rightarrow> done @ (k, v) # rest)
         = done @ (k, coerce_value lib v) # rest"
proof -
  have m: "map_of (done @ (k, v) # rest) k = Some v"
    using assms by (rule map_of_append_fresh)
  have u: "AList.update k w (done @ (k, v) # rest) = done @ (k, w) # rest" for w
    using assms by (rule update_append_fresh)
  show ?thesis
    unfolding m u by (cases v) simp_all
qed

lemma coerce_loop_append:
  "distinct (map fst (done @ todo)) \<Longrightarrow>
    coerce_loop lib (map fst todo) (done @ todo)
      = done @ map (\<lambda>kv. (fst kv, coerce_value lib (snd kv))) todo"
proof (induction todo arbitrary: "done")
  case Nil
  show ?case by simp
next
  case (Cons kv todo)
  obtain k v where kv: "kv = (k, v)" by (cases kv)
  from Cons.prems kv have fresh: "k \<notin> fst ` set done" by auto
  from Cons.prems kv have d: "distinct (map fst ((done @ [(k, coerce_value lib v)]) @ todo))"
    by auto
  have "coerce_loop lib (map fst (kv # todo)) (done @ kv # todo)
        = coerce_loop lib (map fst todo) ((done @ [(k, coerce_value lib v)]) @ todo)"
    using coerce_step [OF fresh, of v todo lib] kv by simp
  also have "\<dots> = (done @ [(k, coerce_value lib v)])
                  @ map (\<lambda>kv. (fst kv, coerce_value lib (snd kv))) todo"
    using d by (rule Cons.IH)
  finally show ?case using kv by simp
qed

lemma coerce_loop_map:
  "distinct (map fst params) \<Longrightarrow>
    coerce_loop lib (map fst params) params
      = map (\<lambda>kv. (fst kv, coerce_value lib (snd kv))) params"
  using coerce_loop_append [of "[]" params lib] by simp

text \<open>
  Claim C5. For parameters with distinct keys, the signed parameters are exactly those
  of the steps of the specification; adapters with the same key and secret and clock
  readings with the same millisecond give the same signed parameters, so the
  signature is a function of parameters, key, secret and timestamp; and the sorted
  parameters are the same entries in ascending order of the keys.
\<close>

theorem sign_params_steps:
  assumes "distinct (map fst params)"
    and "key b' = key b" and "secret b' = secret b"
    and "int_trunc (now' * 1000) = int_trunc (now * 1000)"
  shows "sign_params lib b now params
           = signing_steps lib (key b) (secret b) (int_trunc (now * 1000)) params
       \<and> sign_params lib b' now' params = sign_params lib b now params
       \<and> sorted (map fst (sort_dict_keys d)) \<and> mset (sort_dict_keys d) = mset d"
proof -
  let ?p1 = "\<lambda>b now. AList.update ''timestamp'' (PInt (int_trunc (now * 1000)))
               (AList.update ''api_key'' (PStr (key b)) params)"
  have d: "distinct (map fst (?p1 b now))" for b now
    using assms(1) by (simp add: distinct_update)
  have steps: "sign_params lib b now params
           = signing_steps lib (key b) (secret b) (int_trunc (now * 1000)) params" for b now
    using coerce_loop_map [OF d [of now b], of lib]
    by (simp add: sign_params_def signing_steps_def sort_dict_keys_def Let_def)
  show ?thesis
    using steps [of b now] steps [of b' now'] assms(2-4)
    by (simp add: sort_dict_keys_def)
qed

lemma sample_signed:
  "sign_params sample_lib sample_adapter 1609459200 order_params =
     [(''symbol'', PStr ''BTCUSD''), (''close_on_trigger'', PStr ''false''),
      (''qty'', PStr ''0.0''), (''position_idx'', PInt 0), (''api_key'', PStr ''k''),
      (''timestamp'', PInt 1609459200000),
      (''sign'', PStr ''sapi_keyclose_on_triggerposition_idxqtysymboltimestamp'')]"
  unfolding sign_params_def sort_dict_keys_def order_params_def sample_adapter_def
    init_market_type_def sample_lib_def
  by code_simp

theorem sign_params_steps_witness:
  "distinct (map fst order_params)
   \<and> sign_params sample_lib sample_adapter 1609459200 order_params =
     [(''symbol'', PStr ''BTCUSD''), (''close_on_trigger'', PStr ''false''),
      (''qty'', PStr ''0.0''), (''position_idx'', PInt 0), (''api_key'', PStr ''k''),
      (''timestamp'', PInt 1609459200000),
      (''sign'', PStr ''sapi_keyclose_on_triggerposition_idxqtysymboltimestamp'')]
   \<and> signing_steps sample_lib ''k'' ''s'' 1609459200000 order_params =
       sign_params sample_lib sample_adapter 1609459200 order_params"
proof -
  have d: "distinct (map fst order_params)"
    by (simp add: order_params_def)
  have k: "key sample_adapter = ''k''" "secret sample_adapter = ''s''"
    by (simp_all add: sample_adapter_def init_market_type_def Let_def)
  have t: "int_trunc (1609459200 * 1000) = 1609459200000"
    by (simp add: int_trunc_def)
  from sign_params_steps
         [where b = sample_adapter and b' = sample_adapter and now = 1609459200
            and now' = 1609459200 and lib = sample_lib and d = order_params,
          OF d refl refl refl]
    sample_signed d k t
  show ?thesis by simp
qed

section \<open>Properties of tick normalization\<close>

text \<open>
  A batch that holds a record on which \<open>format_tick\<close> raises comes back empty,
  whatever the other records are.
\<close>

lemma mapE_raises:
  "x \<in> set xs \<Longrightarrow> f x = Inl e \<Longrightarrow> \<exists>e'. mapE f xs = Inl e'"
proof (induction xs)
  case Nil
  then show ?case by simp
next
  case (Cons y ys)
  show ?case
  proof (cases "f y")
    case (Inl a)
    then show ?thesis by simp
  next
    case (Inr b)
    with Cons.prems have "x \<in> set ys" by auto
    with Cons.IH Cons.prems(2) obtain e' where "mapE f ys = Inl e'" by blast
    with Inr show ?thesis by simp
  qed
qed

lemma fetch_ticks_malformed_record:
  assumes "dict_get (endpoints b) ''ticks'' = Inr url"
    and "session ''get'' (base_endpoint @ url) (tick_params b from_id)
           = Inr (PDict [(''result'', PList recs)])"
    and "r \<in> set recs" and "format_tick lib r = Inl e"
  shows "fetch_ticks lib session b from_id do_print = []"
proof -
  from mapE_raises [of r recs "format_tick lib" e, OF assms(3,4)]
  obtain e' where "mapE (format_tick lib) recs = Inl e'" ..
  with assms(1,2) show ?thesis
    by (simp add: fetch_ticks_def public_get_def format_batch_def dict_get_def)
qed

text \<open>
  Claim C1. A batch of two well-formed records around one malformed record: each
  well-formed record alone is normalized, the malformed one raises, and
  \<open>fetch_ticks\<close> returns the empty list, not the two normalized ticks, with and
  without the log line.
\<close>

theorem fetch_ticks_one_malformed_record:
  "format_tick sample_lib good_tick
     = Inr [(''trade_id'', PInt 42), (''price'', PFloat 100.5), (''qty'', PFloat 2),
            (''timestamp'', PFloat 1609459200000), (''is_buyer_maker'', PBool True)]
   \<and> format_tick sample_lib bad_tick = Inl ValueError
   \<and> fetch_ticks sample_lib mixed_session sample_adapter None False = []
   \<and> fetch_ticks sample_lib mixed_session sample_adapter None True = []"
  by (simp add: fetch_ticks_def format_batch_def format_tick_def good_tick_def bad_tick_def
      sample_lib_def dict_get_def date_to_ts_def mixed_session_def sample_adapter_def
      init_market_type_def public_get_def tick_params_def endswith_def
      inverse_perpetual_endpoints_def Let_def)

text \<open>
  Claim C2 as stated fails: the list returned when the transport raises is the list
  returned for an answer with an empty batch.
\<close>

theorem fetch_ticks_failure_like_empty_counterexample:
  "fetch_ticks sample_lib failing_session sample_adapter None True = []
   \<and> fetch_ticks sample_lib empty_session sample_adapter None True = []"
  by (simp add: fetch_ticks_def format_batch_def 
      dict_get_def failing_session_def empty_session_def sample_adapter_def
      init_market_type_def public_get_def tick_params_def endswith_def
      inverse_perpetual_endpoints_def Let_def)

text \<open>
  Claim C2, amended. When the transport call raises, \<open>fetch_ticks\<close> returns the empty
  list, the same value that it returns for an answer whose batch is empty.
\<close>

theorem fetch_ticks_transport_failure:
  assumes "dict_get (endpoints b) ''ticks'' = Inr url"
    and "failing ''get'' (base_endpoint @ url) (tick_params b from_id) = Inl e"
    and "answering ''get'' (base_endpoint @ url) (tick_params b from_id)
           = Inr (PDict [(''result'', PList [])])"
  shows "fetch_ticks lib failing b from_id do_print = []
       \<and> fetch_ticks lib answering b from_id do_print = []"
  using assms by (simp add: fetch_ticks_def public_get_def format_batch_def dict_get_def)

theorem fetch_ticks_transport_failure_witness:
  "fetch_ticks sample_lib failing_session sample_adapter (Some 7) True = []
   \<and> fetch_ticks sample_lib empty_session sample_adapter (Some 7) True = []
   \<and> failing_session ''get'' (base_endpoint @ ''/v2/public/trading-records'')
        (tick_params sample_adapter (Some 7)) = Inl TransportError"
proof -
  have u: "dict_get (endpoints sample_adapter) ''ticks'' = Inr ''/v2/public/trading-records''"
    by (simp add: sample_adapter_fields inverse_perpetual_endpoints_def dict_get_def)
  have f: "failing_session ''get'' (base_endpoint @ ''/v2/public/trading-records'')
             (tick_params sample_adapter (Some 7)) = Inl TransportError"
    by (simp add: failing_session_def)
  have a: "empty_session ''get'' (base_endpoint @ ''/v2/public/trading-records'')
             (tick_params sample_adapter (Some 7)) = Inr (PDict [(''result'', PList [])])"
    by (simp add: empty_session_def)
  from fetch_ticks_transport_failure
         [where failing = failing_session and answering = empty_session
            and lib = sample_lib and do_print = True, OF u f a] f
  show ?thesis by simp
qed

lemma ws_loop_append:
  "ws_loop lib es acc =
     acc @ concat (map (\<lambda>e. case ws_tick lib e of Inl ex \<Rightarrow> [] | Inr t \<Rightarrow> [t]) es)"
  by (induction es arbitrary: acc) (simp_all split: sum.splits)

lemma ws_tick_keys:
  "ws_tick lib e = Inr t \<Longrightarrow> map fst t = [''price'', ''qty'', ''is_buyer_maker'']"
  by (auto simp: ws_tick_def bindE_eq_Inr)

lemma ws_tick_well_formed:
  assumes "subscript e ''price'' = Inr p" and "py_float lib p = Inr pr"
    and "subscript e ''size'' = Inr q" and "py_float lib q = Inr qty"
    and "subscript e ''side'' = Inr sd"
  shows "ws_tick lib e = Inr [(''price'', PFloat pr), (''qty'', PFloat qty),
                              (''is_buyer_maker'', PBool (sd = PStr ''Sell''))]"
  using assms by (simp add: ws_tick_def)

text \<open>
  Claim C9 as stated fails: the tick made from a well-formed WebSocket record that
  carries timestamps has the keys \<open>price\<close>, \<open>qty\<close> and \<open>is_buyer_maker\<close> and no
  timestamp.
\<close>

theorem ws_tick_without_timestamp_counterexample:
  "standardize_websocket_ticks sample_lib ws_message
     = Inr [[(''price'', PFloat 100.5), (''qty'', PFloat 2), (''is_buyer_maker'', PBool True)]]
   \<and> map_of [(''price'', PFloat 100.5), (''qty'', PFloat 2), (''is_buyer_maker'', PBool True)]
        ''timestamp'' = None"
  by (simp add: standardize_websocket_ticks_def ws_message_def ws_record_def ws_tick_def
      dict_get_def)

text \<open>
  Claim C9, amended. For every well-formed record of a WebSocket message, the result
  holds its tick with the price, the quantity and \<open>is_buyer_maker\<close>, which is true
  exactly when the side is \<open>Sell\<close>; every tick of the result has these three keys and
  no other, so both the trade id and the timestamp are absent.
\<close>

theorem ws_tick_fields:
  assumes "e \<in> set es"
    and "subscript e ''price'' = Inr p" and "py_float lib p = Inr pr"
    and "subscript e ''size'' = Inr q" and "py_float lib q = Inr qty"
    and "subscript e ''side'' = Inr sd"
  shows "\<exists>ticks. standardize_websocket_ticks lib (PDict [(''data'', PList es)]) = Inr ticks
           \<and> [(''price'', PFloat pr), (''qty'', PFloat qty),
               (''is_buyer_maker'', PBool (sd = PStr ''Sell''))] \<in> set ticks
           \<and> (\<forall>t \<in> set ticks. map fst t = [''price'', ''qty'', ''is_buyer_maker''])"
proof -
  let ?one = "\<lambda>e. case ws_tick lib e of Inl ex \<Rightarrow> [] | Inr t \<Rightarrow> [t]"
  let ?ticks = "concat (map ?one es)"
  have run: "standardize_websocket_ticks lib (PDict [(''data'', PList es)]) = Inr ?ticks"
    by (simp add: standardize_websocket_ticks_def dict_get_def ws_loop_append)
  from assms(2-6) have "ws_tick lib e = Inr [(''price'', PFloat pr), (''qty'', PFloat qty),
                              (''is_buyer_maker'', PBool (sd = PStr ''Sell''))]"
    by (rule ws_tick_well_formed)
  with assms(1) have mem: "[(''price'', PFloat pr), (''qty'', PFloat qty),
               (''is_buyer_maker'', PBool (sd = PStr ''Sell''))] \<in> set ?ticks"
    by force
  have keys: "\<forall>t \<in> set ?ticks. map fst t = [''price'', ''qty'', ''is_buyer_maker'']"
  proof
    fix t assume "t \<in> set ?ticks"
    then obtain x where "x \<in> set es" "t \<in> set (?one x)" by auto
    then have "ws_tick lib x = Inr t" by (cases "ws_tick lib x") auto
    then show "map fst t = [''price'', ''qty'', ''is_buyer_maker'']" by (rule ws_tick_keys)
  qed
  from run mem keys show ?thesis by blast
qed

theorem ws_tick_fields_witness:
  "standardize_websocket_ticks sample_lib (PDict [(''data'', PList [ws_record])])
     = Inr [[(''price'', PFloat 100.5), (''qty'', PFloat 2), (''is_buyer_maker'', PBool True)]]
   \<and> (\<exists>ticks. standardize_websocket_ticks sample_lib (PDict [(''data'', PList [ws_record])])
          = Inr ticks
        \<and> [(''price'', PFloat 100.5), (''qty'', PFloat 2),
            (''is_buyer_maker'', PBool (PStr ''Sell'' = PStr ''Sell''))] \<in> set ticks)"
proof -
  have m: "ws_record \<in> set [ws_record]" by simp
  have "subscript ws_record ''price'' = Inr (PFloat 100.5)"
    and "py_float sample_lib (PFloat 100.5) = Inr 100.5"
    and "subscript ws_record ''size'' = Inr (PInt 2)"
    and "py_float sample_lib (PInt 2) = Inr 2"
    and "subscript ws_record ''side'' = Inr (PStr ''Sell'')"
    by (simp_all add: ws_record_def dict_get_def)
  from ws_tick_fields [OF m this]
  have "\<exists>ticks. standardize_websocket_ticks sample_lib (PDict [(''data'', PList [ws_record])])
          = Inr ticks
        \<and> [(''price'', PFloat 100.5), (''qty'', PFloat 2),
            (''is_buyer_maker'', PBool (PStr ''Sell'' = PStr ''Sell''))] \<in> set ticks"
    by blast
  moreover have "standardize_websocket_ticks sample_lib (PDict [(''data'', PList [ws_record])])
     = Inr [[(''price'', PFloat 100.5), (''qty'', PFloat 2), (''is_buyer_maker'', PBool True)]]"
    by (simp add: standardize_websocket_ticks_def ws_record_def ws_tick_def dict_get_def)
  ultimately show ?thesis by blast
qed

section \<open>Properties of the addition of doubles\<close>

text \<open>
  The exponent brackets its argument between two powers of two, and the rounding
  of a quotient is an integer nearest to it.
\<close>

lemma double_exponent_bounds_large:
  assumes "1 \<le> a"
  shows "pow2 (double_exponent a) \<le> a \<and> a < pow2 (double_exponent a + 1)"
proof -
  let ?n = "\<lfloor>a\<rfloor>"
  from assms have n: "0 < ?n" by linarith
  from bitlen_bounds [OF n]
  have lo: "2 ^ nat (bitlen ?n - 1) \<le> ?n" and hi: "?n < 2 ^ nat (bitlen ?n)" by simp_all
  from n have k: "1 \<le> bitlen ?n" by (simp add: bitlen_alt_def)
  have e: "double_exponent a = bitlen ?n - 1"
    using assms by (simp add: double_exponent_def)
  from lo have "(2::real) ^ nat (bitlen ?n - 1) \<le> of_int ?n"
    by (metis of_int_le_iff of_int_numeral of_int_power)
  also have "\<dots> \<le> a" by simp
  finally have low: "pow2 (double_exponent a) \<le> a"
    using e k by (simp add: pow2_def)
  from hi have "?n + 1 \<le> 2 ^ nat (bitlen ?n)" by simp
  then have "of_int (?n + 1) \<le> (2::real) ^ nat (bitlen ?n)"
    by (metis of_int_le_iff of_int_numeral of_int_power)
  moreover have "a < of_int (?n + 1)" by linarith
  ultimately have "a < (2::real) ^ nat (bitlen ?n)" by linarith
  then have high: "a < pow2 (double_exponent a + 1)"
    using e k by (simp add: pow2_def)
  from low high show ?thesis ..
qed

lemma double_exponent_bounds_small:
  assumes pos: "pow2 (- 1022) \<le> a" and small: "a < 1"
  shows "pow2 (double_exponent a) \<le> a \<and> a < pow2 (double_exponent a + 1)"
proof -
  have a0: "0 < a" using pos by (simp add: pow2_def)
  let ?m = "\<lceil>1 / a\<rceil> - 1"
  let ?k = "bitlen ?m"
  from a0 small have inv: "1 < 1 / a" by simp
  then have m: "0 < ?m" by linarith
  from bitlen_bounds [OF m]
  have lo: "2 ^ nat (?k - 1) \<le> ?m" and hi: "?m < 2 ^ nat ?k" by simp_all
  from m have k: "1 \<le> ?k" by (simp add: bitlen_alt_def)
  have m_lt: "of_int ?m < 1 / a" by linarith
  have m_ge: "1 / a \<le> of_int (?m + 1)" by simp
  from hi have "?m + 1 \<le> 2 ^ nat ?k" by simp
  then have "of_int (?m + 1) \<le> (2::real) ^ nat ?k"
    by (metis of_int_le_iff of_int_numeral of_int_power)
  with m_ge have "1 / a \<le> 2 ^ nat ?k" by linarith
  then have low: "1 / 2 ^ nat ?k \<le> a"
    using a0 by (simp add: field_simps)
  from lo have "(2::real) ^ nat (?k - 1) \<le> of_int ?m"
    by (metis of_int_le_iff of_int_numeral of_int_power)
  with m_lt have "2 ^ nat (?k - 1) < 1 / a" by linarith
  then have high: "a < 1 / 2 ^ nat (?k - 1)"
    using a0 by (simp add: field_simps)
  define c :: real where "c = 2 ^ 1022"
  have c: "0 < c" and pc: "1 / c \<le> a"
    using pos by (simp_all add: c_def pow2_def)
  have "?k \<le> 1022"
  proof (rule ccontr)
    assume "\<not> ?k \<le> 1022"
    then have "1022 \<le> nat (?k - 1)" by simp
    then have "(2::real) ^ 1022 \<le> 2 ^ nat (?k - 1)"
      by (rule power_increasing) simp
    then have "c \<le> 2 ^ nat (?k - 1)" by (simp only: c_def)
    with c have "1 / 2 ^ nat (?k - 1) \<le> 1 / c"
      by (simp add: frac_le)
    with high pc show False by linarith
  qed
  then have e: "double_exponent a = - ?k"
    using small by (simp add: double_exponent_def)
  have p1: "pow2 (- ?k) = 1 / 2 ^ nat ?k"
    using k by (simp add: pow2_def)
  have p2: "pow2 (- ?k + 1) = 1 / 2 ^ nat (?k - 1)"
  proof (cases "?k = 1")
    case True
    then show ?thesis by (simp add: pow2_def)
  next
    case False
    with k have "1 < ?k" by simp
    then have "nat (- (- ?k + 1)) = nat (?k - 1)" "\<not> 0 \<le> - ?k + 1" by simp_all
    then show ?thesis by (simp add: pow2_def)
  qed
  from low high show ?thesis unfolding e p1 p2 by simp
qed

lemma double_exponent_bounds:
  assumes "pow2 (- 1022) \<le> a"
  shows "pow2 (double_exponent a) \<le> a \<and> a < pow2 (double_exponent a + 1)"
  using assms double_exponent_bounds_large [of a] double_exponent_bounds_small [of a]
  by (cases "1 \<le> a") simp_all

lemma round_half_even_nearest: "\<bar>of_int (round_half_even q) - q\<bar> \<le> 1 / 2"
proof -
  have "of_int \<lfloor>q\<rfloor> \<le> q" "q < of_int \<lfloor>q\<rfloor> + 1" by linarith+
  then show ?thesis
    by (auto simp: round_half_even_def Let_def)
qed

lemma round_half_even_int: "round_half_even (of_int n) = n"
  by (simp add: round_half_even_def)

section \<open>Properties of position reconciliation\<close>

lemma subvalues_self: "v \<in> set (subvalues v)"
  by (cases v) auto

lemma subvalues_trans_list: "x \<in> set xs \<Longrightarrow> r \<in> set (subvalues x) \<Longrightarrow> r \<in> set (subvalues (PList xs))"
  by auto

lemma subvalues_trans_dict: "(k, x) \<in> set d \<Longrightarrow> r \<in> set (subvalues x) \<Longrightarrow> r \<in> set (subvalues (PDict d))"
  by force

lemma subvalues_trans:
  "x \<in> set (subvalues v) \<Longrightarrow> r \<in> set (subvalues x) \<Longrightarrow> r \<in> set (subvalues v)"
proof (induction v)
  case (PList xs)
  then show ?case by auto
next
  case (PDict d)
  then show ?case by fastforce
qed auto

lemma subscript_subvalues:
  assumes "subscript v k = Inr x" and "r \<in> set (subvalues x)"
  shows "r \<in> set (subvalues v)"
proof (cases v)
  case (PDict d)
  with assms(1) have "map_of d k = Some x"
    by (simp add: dict_get_def split: option.splits)
  then have "(k, x) \<in> set d" by (rule map_of_SomeD)
  with assms(2) PDict show ?thesis using subvalues_trans_dict by blast
qed (use assms in auto)

lemma select_by_side_subvalues:
  assumes "select_by_side fetched side = Inr lp"
  shows "lp \<in> set (subvalues fetched)"
proof -
  from assms obtain r es l where r: "subscript fetched ''result'' = Inr r"
    and es: "iterate r = Inr es"
    and l: "filterE (\<lambda>e. bindE (subscript e ''side'') (\<lambda>sd. Inr (sd = PStr side))) es = Inr l"
    and lp: "first l = Inr lp"
    by (auto simp: select_by_side_def bindE_eq_Inr)
  from lp have m: "lp \<in> set l" by (rule first_mem)
  with l have in_es: "lp \<in> set es" using filterE_subset by blast
  from filterE_cond [OF l m] obtain sd where "subscript lp ''side'' = Inr sd"
    by (auto simp: bindE_eq_Inr)
  with es in_es have "r = PList es" by (rule iterate_subscript)
  with in_es have "lp \<in> set (subvalues r)" using subvalues_self by auto
  with r show ?thesis by (rule subscript_subvalues)
qed

lemma select_by_idx_subvalues:
  assumes "select_by_idx fetched i = Inr lp"
  shows "lp \<in> set (subvalues fetched)"
proof -
  let ?c = "\<lambda>e. bindE (subscript e ''data'') (\<lambda>d.
                        bindE (subscript d ''position_idx'') (\<lambda>idx.
                          Inr (py_eq_int idx i)))"
  from assms obtain r es l ds where r: "subscript fetched ''result'' = Inr r"
    and es: "iterate r = Inr es"
    and l: "filterE ?c es = Inr l"
    and ds: "mapE (\<lambda>e. subscript e ''data'') l = Inr ds"
    and lp: "first ds = Inr lp"
    by (auto simp: select_by_idx_def bindE_eq_Inr)
  from lp have "lp \<in> set ds" by (rule first_mem)
  with ds obtain e where e: "e \<in> set l" and d: "subscript e ''data'' = Inr lp"
    using mapE_mem by fastforce
  from l e have in_es: "e \<in> set es" using filterE_subset by blast
  with es d have "r = PList es" using iterate_subscript by blast
  with in_es have "e \<in> set (subvalues r)" using subvalues_self by auto
  with r have "e \<in> set (subvalues fetched)" by (rule subscript_subvalues)
  moreover have "lp \<in> set (subvalues e)"
    using d subvalues_self subscript_subvalues by blast
  ultimately show ?thesis
    by (rule subvalues_trans)
qed

lemma build_position_Inr:
  assumes "build_position jit lib b wb lp sp = Inr pos"
  obtains lsize lprice llev lliq ssize sprice slev sliq lupnl supnl where
    "float_field lib lp ''size'' = Inr lsize"
    "float_field lib lp ''entry_price'' = Inr lprice"
    "float_field lib sp ''size'' = Inr ssize"
    "float_field lib sp ''entry_price'' = Inr sprice"
    "(if lprice \<noteq> 0
      then calc_long_pnl jit lprice (price b) lsize (xk_inverse b) (xk_contract_multiplier b)
      else Inr 0) = Inr lupnl"
    "(if sprice \<noteq> 0
      then calc_shrt_pnl jit sprice (price b) (- ssize) (xk_inverse b) (xk_contract_multiplier b)
      else Inr 0) = Inr supnl"
    "pos = \<lparr>long = \<lparr>pos_size = lsize, pos_price = lprice, pos_leverage = llev,
                        pos_liquidation_price = lliq, pos_upnl = lupnl\<rparr>,
               shrt = \<lparr>pos_size = - ssize, pos_price = sprice, pos_leverage = slev,
                        pos_liquidation_price = sliq, pos_upnl = supnl\<rparr>,
               wallet_balance = wb,
               equity = float_add lib wb (float_add lib lupnl supnl)\<rparr>"
  using assms unfolding build_position_def bindE_eq_Inr Let_def
  by (elim exE conjE) (simp, blast)

lemma build_position_sizes:
  assumes "build_position jit lib b wb lp sp = Inr pos"
  shows "float_field lib lp ''size'' = Inr (pos_size (long pos))
       \<and> float_field lib sp ''size'' = Inr (- pos_size (shrt pos))"
  using assms by (rule build_position_Inr) simp

lemma build_position_equity:
  assumes "build_position jit lib b wb lp sp = Inr pos"
  shows "equity pos = float_add lib (wallet_balance pos)
                        (float_add lib (pos_upnl (long pos)) (pos_upnl (shrt pos)))"
  using assms by (rule build_position_Inr) simp

lemma build_position_long_upnl:
  assumes "build_position jit lib b wb lp sp = Inr pos"
  shows "(if pos_price (long pos) \<noteq> 0
          then calc_long_pnl jit (pos_price (long pos)) (price b) (pos_size (long pos))
                 (xk_inverse b) (xk_contract_multiplier b)
          else Inr 0) = Inr (pos_upnl (long pos))"
  using assms by (rule build_position_Inr) (auto split: if_splits)

lemma build_position_shrt_upnl:
  assumes "build_position jit lib b wb lp sp = Inr pos"
  shows "(if pos_price (shrt pos) \<noteq> 0
          then calc_shrt_pnl jit (pos_price (shrt pos)) (price b) (pos_size (shrt pos))
                 (xk_inverse b) (xk_contract_multiplier b)
          else Inr 0) = Inr (pos_upnl (shrt pos))"
  using assms by (rule build_position_Inr) (auto split: if_splits)

text \<open>
  Every position comes out of the common tail, from records of the position answer or
  from the placeholder.
\<close>

lemma fetch_position_built:
  assumes "fetch_position jit lib session b t_pos t_bal = Inr pos"
  obtains url fetched wb lp sp where
    "dict_get (endpoints b) ''position'' = Inr url"
    "private_get lib session b t_pos url [(''symbol'', PStr (symbol b))] = Inr fetched"
    "build_position jit lib b wb lp sp = Inr pos"
    "lp = zero_pos \<or> lp \<in> set (subvalues fetched)"
    "sp = zero_pos \<or> sp \<in> set (subvalues fetched)"
proof (cases "market_type b = ''linear_perpetual''")
  case True
  with assms obtain url burl fetched bal lp sp wb where
    "dict_get (endpoints b) ''position'' = Inr url"
    "private_get lib session b t_pos url [(''symbol'', PStr (symbol b))] = Inr fetched"
    "select_by_side fetched ''Buy'' = Inr lp"
    "select_by_side fetched ''Sell'' = Inr sp"
    "build_position jit lib b wb lp sp = Inr pos"
    by (auto simp: fetch_position_def gather_def bindE_eq_Inr)
  then show ?thesis
    using that select_by_side_subvalues by blast
next
  case False
  with assms obtain url burl fetched bal wb where
    u: "dict_get (endpoints b) ''position'' = Inr url"
    and f: "private_get lib session b t_pos url [(''symbol'', PStr (symbol b))] = Inr fetched"
    and rest: "(if market_type b = ''inverse_perpetual'' then
           bindE (subscript fetched ''result'') (\<lambda>r.
           bindE (subscript r ''side'') (\<lambda>sd.
             if sd = PStr ''Buy''
             then build_position jit lib b wb r zero_pos
             else build_position jit lib b wb zero_pos r))
         else if market_type b = ''inverse_futures'' then
           bindE (select_by_idx fetched 1) (\<lambda>long_pos.
           bindE (select_by_idx fetched 2) (\<lambda>shrt_pos.
             build_position jit lib b wb long_pos shrt_pos))
         else Inl NameError) = Inr pos"
    by (auto simp: fetch_position_def gather_def bindE_eq_Inr)
  show ?thesis
  proof (cases "market_type b = ''inverse_perpetual''")
    case True
    with rest obtain r where r: "subscript fetched ''result'' = Inr r"
      and bp: "build_position jit lib b wb r zero_pos = Inr pos
             \<or> build_position jit lib b wb zero_pos r = Inr pos"
      by (auto simp: bindE_eq_Inr split: if_splits)
    from r have "r \<in> set (subvalues fetched)"
      using subscript_subvalues subvalues_self by blast
    with bp u f show ?thesis
      using that by blast
  next
    case ip: False
    with rest have fut: "market_type b = ''inverse_futures''"
      by (auto split: if_splits)
    with rest ip obtain lp sp where "select_by_idx fetched 1 = Inr lp"
      "select_by_idx fetched 2 = Inr sp" "build_position jit lib b wb lp sp = Inr pos"
      by (auto simp: bindE_eq_Inr)
    with u f show ?thesis
      using that select_by_idx_subvalues by blast
  qed
qed

lemma double_add_samples:
  "double_add (- 10) 0 = - 10"
  "double_add 2 (- 10) = - 8"
  "double_add (1 / 2) (3 / 4) = 5 / 4"
  "double_add 9007199254740992 (5 / 4) = 9007199254740994"
  "double_add 9007199254740992 (1 / 2) = 9007199254740992"
  "double_add 9007199254740992 (3 / 4) = 9007199254740992"
  by code_simp+

lemma sample_position:
  "fetch_position sample_jit sample_lib both_sides_session futures_adapter 0 0 =
    Inr \<lparr>long = \<lparr>pos_size = 10, pos_price = 101, pos_leverage = 3,
                  pos_liquidation_price = 0, pos_upnl = - 10\<rparr>,
         shrt = \<lparr>pos_size = - 3, pos_price = 0, pos_leverage = 3,
                  pos_liquidation_price = 0, pos_upnl = 0\<rparr>,
         wallet_balance = 2, equity = - 8\<rparr>"
  by (simp add: fetch_position_def futures_adapter_fields inverse_futures_endpoints_def
      dict_get_def gather_def private_get_def private_call_def both_sides_session_def
      base_endpoint_def endswith_def select_by_idx_def both_sides_answer_def long_record_def
      shrt_record_def read_wallet_balance_def balance_answer_def build_position_def
      float_field_def sample_lib_def sample_jit_def double_add_samples)

text \<open>
  Claim C4 as stated fails: with a balance of \<open>2 ^ 53\<close> and profits of one half and
  three quarters the equity that \<open>fetch_position\<close> returns is \<open>2 ^ 53 + 2\<close>. Adding the
  balance and the profits from left to right as floats gives \<open>2 ^ 53\<close>, and their exact
  sum is \<open>2 ^ 53 + 5 / 4\<close>.
\<close>

theorem fetch_position_equity_grouping_counterexample:
  "fetch_position fraction_jit sample_lib large_balance_session futures_adapter 0 0 =
     Inr \<lparr>long = \<lparr>pos_size = 10, pos_price = 101, pos_leverage = 3,
                   pos_liquidation_price = 0, pos_upnl = 1 / 2\<rparr>,
          shrt = \<lparr>pos_size = - 3, pos_price = 101, pos_leverage = 3,
                   pos_liquidation_price = 0, pos_upnl = 3 / 4\<rparr>,
          wallet_balance = 9007199254740992, equity = 9007199254740994\<rparr>
   \<and> 9007199254740994 \<noteq> double_add (double_add 9007199254740992 (1 / 2)) (3 / 4)
   \<and> (9007199254740994 :: real) \<noteq> 9007199254740992 + 1 / 2 + 3 / 4"
  by (simp add: fetch_position_def futures_adapter_fields inverse_futures_endpoints_def
      dict_get_def gather_def private_get_def private_call_def large_balance_session_def
      base_endpoint_def endswith_def select_by_idx_def priced_answer_def long_record_def
      priced_shrt_record_def read_wallet_balance_def large_balance_answer_def
      build_position_def float_field_def sample_lib_def fraction_jit_def double_add_samples)

text \<open>
  Claim C4, amended. For every position that \<open>fetch_position\<close> returns, the equity is
  the float sum of the wallet balance and the float sum of the profits of the two
  sides, the two profits being added first; the profit of a side is zero when its
  entry price is zero, and otherwise it is the value of the pricing function at the
  entry price, the mark price, the signed size, the inversion flag and the contract
  multiplier.
\<close>

theorem fetch_position_equity_upnl:
  assumes "fetch_position jit lib session b t_pos t_bal = Inr pos"
  shows "equity pos = float_add lib (wallet_balance pos)
                        (float_add lib (pos_upnl (long pos)) (pos_upnl (shrt pos)))
       \<and> (pos_price (long pos) = 0 \<longrightarrow> pos_upnl (long pos) = 0)
       \<and> (pos_price (shrt pos) = 0 \<longrightarrow> pos_upnl (shrt pos) = 0)
       \<and> (pos_price (long pos) \<noteq> 0 \<longrightarrow>
            calc_long_pnl jit (pos_price (long pos)) (price b) (pos_size (long pos))
              (xk_inverse b) (xk_contract_multiplier b) = Inr (pos_upnl (long pos)))
       \<and> (pos_price (shrt pos) \<noteq> 0 \<longrightarrow>
            calc_shrt_pnl jit (pos_price (shrt pos)) (price b) (pos_size (shrt pos))
              (xk_inverse b) (xk_contract_multiplier b) = Inr (pos_upnl (shrt pos)))"
proof -
  from assms obtain wb lp sp
    where bp: "build_position jit lib b wb lp sp = Inr pos"
    by (rule fetch_position_built)
  show ?thesis
    using build_position_equity [OF bp] build_position_long_upnl [OF bp]
      build_position_shrt_upnl [OF bp]
    by (auto split: if_splits)
qed

theorem fetch_position_equity_upnl_witness:
  "fetch_position sample_jit sample_lib both_sides_session futures_adapter 0 0 =
     Inr \<lparr>long = \<lparr>pos_size = 10, pos_price = 101, pos_leverage = 3,
                   pos_liquidation_price = 0, pos_upnl = - 10\<rparr>,
          shrt = \<lparr>pos_size = - 3, pos_price = 0, pos_leverage = 3,
                   pos_liquidation_price = 0, pos_upnl = 0\<rparr>,
          wallet_balance = 2, equity = - 8\<rparr>
   \<and> (- 8 :: real) = float_add sample_lib 2 (float_add sample_lib (- 10) 0)
   \<and> calc_long_pnl sample_jit 101 100 10 True 1 = Inr (- 10)"
  using fetch_position_equity_upnl [OF sample_position] sample_position
  by (simp add: futures_adapter_fields)

lemma float_field_zero_pos: "float_field lib zero_pos ''size'' = Inr 0"
  by (simp add: float_field_def zero_pos_def dict_get_def)

lemma sizes_nonnegD:
  assumes "sizes_nonneg lib resp" and "r \<in> set (subvalues resp)"
    and "float_field lib r ''size'' = Inr x"
  shows "0 \<le> x"
  using assms by (auto simp: sizes_nonneg_def list_all_iff split: sum.splits)

lemma both_sides_nonneg: "sizes_nonneg sample_lib both_sides_answer"
  by (simp add: sizes_nonneg_def both_sides_answer_def long_record_def shrt_record_def
      float_field_def dict_get_def)

text \<open>
  Claim C8. For every position that \<open>fetch_position\<close> returns, if every size in the
  position answer of the vendor is not negative, then the long size is not negative
  and the short size is not positive.
\<close>

theorem fetch_position_size_signs:
  assumes pos: "fetch_position jit lib session b t_pos t_bal = Inr pos"
    and url: "dict_get (endpoints b) ''position'' = Inr url"
    and fetched: "private_get lib session b t_pos url [(''symbol'', PStr (symbol b))] = Inr fetched"
    and nonneg: "sizes_nonneg lib fetched"
  shows "0 \<le> pos_size (long pos) \<and> pos_size (shrt pos) \<le> 0"
proof -
  from pos obtain url' fetched' wb lp sp where
    u': "dict_get (endpoints b) ''position'' = Inr url'"
    and f': "private_get lib session b t_pos url' [(''symbol'', PStr (symbol b))] = Inr fetched'"
    and bp: "build_position jit lib b wb lp sp = Inr pos"
    and lp: "lp = zero_pos \<or> lp \<in> set (subvalues fetched')"
    and sp: "sp = zero_pos \<or> sp \<in> set (subvalues fetched')"
    by (rule fetch_position_built)
  from u' url have "url' = url" by simp
  with f' fetched have same: "fetched' = fetched" by simp
  from build_position_sizes [OF bp]
  have ls: "float_field lib lp ''size'' = Inr (pos_size (long pos))"
    and ss: "float_field lib sp ''size'' = Inr (- pos_size (shrt pos))"
    by simp_all
  have "0 \<le> pos_size (long pos)"
    using lp ls same nonneg float_field_zero_pos [of lib] sizes_nonnegD [of lib fetched lp]
    by auto
  moreover have "0 \<le> - pos_size (shrt pos)"
    using sp ss same nonneg float_field_zero_pos [of lib] sizes_nonnegD [of lib fetched sp]
    by auto
  ultimately show ?thesis by simp
qed

theorem fetch_position_size_signs_witness:
  "(0::real) \<le> 10 \<and> (- 3::real) \<le> 0
   \<and> sizes_nonneg sample_lib both_sides_answer
   \<and> fetch_position sample_jit sample_lib both_sides_session futures_adapter 0 0 =
    Inr \<lparr>long = \<lparr>pos_size = 10, pos_price = 101, pos_leverage = 3,
                  pos_liquidation_price = 0, pos_upnl = - 10\<rparr>,
         shrt = \<lparr>pos_size = - 3, pos_price = 0, pos_leverage = 3,
                  pos_liquidation_price = 0, pos_upnl = 0\<rparr>,
         wallet_balance = 2, equity = - 8\<rparr>"
proof -
  have u: "dict_get (endpoints futures_adapter) ''position'' = Inr ''/futures/private/position/list''"
    by (simp add: futures_adapter_fields inverse_futures_endpoints_def dict_get_def)
  have f: "private_get sample_lib both_sides_session futures_adapter 0
             ''/futures/private/position/list'' [(''symbol'', PStr (symbol futures_adapter))]
           = Inr both_sides_answer"
    by (simp add: private_get_def private_call_def both_sides_session_def base_endpoint_def
        endswith_def)
  show ?thesis
    using fetch_position_size_signs [OF sample_position u f both_sides_nonneg]
      sample_position both_sides_nonneg
    by simp
qed

lemma select_by_idx_absent:
  assumes r: "subscript fetched ''result'' = Inr (PList es)"
    and absent: "\<forall>e \<in> set es. \<exists>d idx. subscript e ''data'' = Inr d
                   \<and> subscript d ''position_idx'' = Inr idx \<and> \<not> py_eq_int idx i"
  shows "select_by_idx fetched i = Inl IndexError"
proof -
  let ?c = "\<lambda>e. bindE (subscript e ''data'') (\<lambda>d.
              bindE (subscript d ''position_idx'') (\<lambda>idx. Inr (py_eq_int idx i)))"
  have "\<forall>e \<in> set es. ?c e = Inr False"
  proof
    fix e assume "e \<in> set es"
    with absent obtain d idx where "subscript e ''data'' = Inr d"
      "subscript d ''position_idx'' = Inr idx" "\<not> py_eq_int idx i" by blast
    then show "?c e = Inr False" by simp
  qed
  then have "filterE ?c es = Inr []" by (rule filterE_all_False)
  with r show ?thesis by (simp add: select_by_idx_def)
qed

lemma select_by_idx_outcome:
  assumes r: "subscript fetched ''result'' = Inr (PList es)"
    and wf: "\<forall>e \<in> set es. \<exists>d idx. subscript e ''data'' = Inr d
                   \<and> subscript d ''position_idx'' = Inr idx"
  shows "select_by_idx fetched i = Inl IndexError \<or> (\<exists>lp. select_by_idx fetched i = Inr lp)"
proof -
  let ?c = "\<lambda>e. bindE (subscript e ''data'') (\<lambda>d.
              bindE (subscript d ''position_idx'') (\<lambda>idx. Inr (py_eq_int idx i)))"
  have "\<forall>e \<in> set es. \<exists>k. ?c e = Inr k"
  proof
    fix e assume "e \<in> set es"
    with wf obtain d idx where "subscript e ''data'' = Inr d"
      "subscript d ''position_idx'' = Inr idx" by blast
    then show "\<exists>k. ?c e = Inr k" by simp
  qed
  then obtain sel where sel: "filterE ?c es = Inr sel" using filterE_total [of es ?c] by blast
  then have "set sel \<subseteq> set es" by (rule filterE_subset)
  with wf have "\<forall>e \<in> set sel. \<exists>y. subscript e ''data'' = Inr y" by blast
  then obtain ds where ds: "mapE (\<lambda>e. subscript e ''data'') sel = Inr ds"
    using mapE_total [of sel "\<lambda>e. subscript e ''data''"] by blast
  from r sel ds have "select_by_idx fetched i = first ds"
    by (simp add: select_by_idx_def)
  then show ?thesis using first_cases [of ds] by simp
qed

text \<open>
  Claim C3 as stated fails: for an inverse futures answer with the record of index 1
  only, \<open>fetch_position\<close> raises \<^verbatim>\<open>IndexError\<close> and returns no position.
\<close>

theorem fetch_position_missing_index_counterexample:
  "fetch_position sample_jit sample_lib long_only_session futures_adapter 0 0 = Inl IndexError"
  by (simp add: fetch_position_def futures_adapter_fields inverse_futures_endpoints_def
      dict_get_def gather_def private_get_def private_call_def long_only_session_def
      base_endpoint_def endswith_def select_by_idx_def long_only_answer_def long_record_def
      read_wallet_balance_def balance_answer_def)

text \<open>
  Claim C3, amended. For an inverse futures answer whose records all carry a position
  index, none of them index \<open>i\<close> for \<open>i\<close> one of 1 and 2, \<open>fetch_position\<close> raises
  \<^verbatim>\<open>IndexError\<close>: the missing side is not replaced by a placeholder and no position is
  returned.
\<close>

theorem fetch_position_futures_missing_index:
  assumes mt: "market_type b = ''inverse_futures''"
    and purl: "dict_get (endpoints b) ''position'' = Inr purl"
    and burl: "dict_get (endpoints b) ''balance'' = Inr burl"
    and fetched: "private_get lib session b t_pos purl [(''symbol'', PStr (symbol b))] = Inr fetched"
    and bal: "private_get lib session b t_bal burl [(''coin'', PStr (coin b))] = Inr bal"
    and wb: "read_wallet_balance lib bal (coin b) = Inr wb"
    and r: "subscript fetched ''result'' = Inr (PList es)"
    and wf: "\<forall>e \<in> set es. \<exists>d idx. subscript e ''data'' = Inr d
                   \<and> subscript d ''position_idx'' = Inr idx"
    and i: "i = 1 \<or> i = 2"
    and absent: "\<forall>e \<in> set es. \<forall>d idx. subscript e ''data'' = Inr d
                   \<and> subscript d ''position_idx'' = Inr idx \<longrightarrow> \<not> py_eq_int idx i"
  shows "fetch_position jit lib session b t_pos t_bal = Inl IndexError"
proof -
  from wf absent have "\<forall>e \<in> set es. \<exists>d idx. subscript e ''data'' = Inr d
                   \<and> subscript d ''position_idx'' = Inr idx \<and> \<not> py_eq_int idx i"
    by blast
  with r have miss: "select_by_idx fetched i = Inl IndexError"
    by (rule select_by_idx_absent)
  have step: "fetch_position jit lib session b t_pos t_bal =
      bindE (select_by_idx fetched 1) (\<lambda>long_pos.
      bindE (select_by_idx fetched 2) (\<lambda>shrt_pos.
        build_position jit lib b wb long_pos shrt_pos))"
    using mt purl burl fetched bal wb by (simp add: fetch_position_def gather_def)
  from i show ?thesis
  proof
    assume "i = 1"
    with miss step show ?thesis by simp
  next
    assume "i = 2"
    with miss have m2: "select_by_idx fetched 2 = Inl IndexError" by simp
    from select_by_idx_outcome [OF r wf, of 1] m2 step show ?thesis by auto
  qed
qed

theorem fetch_position_futures_missing_index_witness:
  "fetch_position sample_jit sample_lib long_only_session futures_adapter 0 0 = Inl IndexError
   \<and> subscript long_only_answer ''result'' = Inr (PList [PDict [(''data'', long_record)]])
   \<and> \<not> py_eq_int (PInt 1) 2"
proof -
  have u: "dict_get (endpoints futures_adapter) ''position'' = Inr ''/futures/private/position/list''"
    and v: "dict_get (endpoints futures_adapter) ''balance'' = Inr ''/v2/private/wallet/balance''"
    by (simp_all add: futures_adapter_fields inverse_futures_endpoints_def dict_get_def)
  have f: "private_get sample_lib long_only_session futures_adapter 0
             ''/futures/private/position/list'' [(''symbol'', PStr (symbol futures_adapter))]
           = Inr long_only_answer"
    and g: "private_get sample_lib long_only_session futures_adapter 0
             ''/v2/private/wallet/balance'' [(''coin'', PStr (coin futures_adapter))]
           = Inr balance_answer"
    by (simp_all add: private_get_def private_call_def long_only_session_def base_endpoint_def
        endswith_def)
  have w: "read_wallet_balance sample_lib balance_answer (coin futures_adapter) = Inr 2"
    by (simp add: read_wallet_balance_def balance_answer_def futures_adapter_fields dict_get_def)
  have r: "subscript long_only_answer ''result'' = Inr (PList [PDict [(''data'', long_record)]])"
    by (simp add: long_only_answer_def dict_get_def)
  have wf: "\<forall>e \<in> set [PDict [(''data'', long_record)]]. \<exists>d idx. subscript e ''data'' = Inr d
                   \<and> subscript d ''position_idx'' = Inr idx"
    by (simp add: long_record_def dict_get_def)
  have ab: "\<forall>e \<in> set [PDict [(''data'', long_record)]]. \<forall>d idx. subscript e ''data'' = Inr d
                   \<and> subscript d ''position_idx'' = Inr idx \<longrightarrow> \<not> py_eq_int idx 2"
    by (auto simp: long_record_def dict_get_def)
  have i: "(2::int) = 1 \<or> (2::int) = 2" by simp
  show ?thesis
    using fetch_position_futures_missing_index
      [OF futures_adapter_fields(1) u v f g w r wf i ab, of sample_jit] r
    by simp
qed

section \<open>Properties of order cancellation\<close>

text \<open>
  Claim C10. Whatever the vendor answers to the cancellation, an \<open>order not found\<close>
  report included, \<open>execute_cancellation\<close> returns the cancellation record with the
  symbol of the adapter and the side, position side, quantity and price of the order.
\<close>

theorem execute_cancellation_ignores_answer:
  assumes "dict_get (endpoints b) ''cancel_order'' = Inr url"
    and "map_of ord ''order_id'' = Some oid"
    and "map_of ord ''side'' = Some side"
    and "map_of ord ''position_side'' = Some pside"
    and "map_of ord ''qty'' = Some qty"
    and "map_of ord ''price'' = Some pr"
    and "private_post lib session b now url
           [(''symbol'', PStr (symbol b)), (''order_id'', oid)] = Inr answer"
  shows "execute_cancellation lib session b now (PDict ord)
           = Inr [(''symbol'', PStr (symbol b)), (''side'', side),
                  (''position_side'', pside), (''qty'', qty), (''price'', pr)]"
  using assms by (simp add: execute_cancellation_def dict_get_def)

theorem execute_cancellation_ignores_answer_witness:
  "execute_cancellation sample_lib not_found_session sample_adapter 0 resting_order
     = Inr [(''symbol'', PStr ''BTCUSD''), (''side'', PStr ''buy''),
            (''position_side'', PStr ''long''), (''qty'', PFloat 2), (''price'', PFloat 100.5)]
   \<and> private_post sample_lib not_found_session sample_adapter 0 ''/v2/private/order/cancel''
        [(''symbol'', PStr (symbol sample_adapter)), (''order_id'', PStr ''o-1'')]
       = Inr not_found_answer"
proof -
  have u: "dict_get (endpoints sample_adapter) ''cancel_order'' = Inr ''/v2/private/order/cancel''"
    by (simp add: sample_adapter_fields inverse_perpetual_endpoints_def dict_get_def)
  have p: "private_post sample_lib not_found_session sample_adapter 0 ''/v2/private/order/cancel''
        [(''symbol'', PStr (symbol sample_adapter)), (''order_id'', PStr ''o-1'')]
       = Inr not_found_answer"
    by (simp add: private_post_def private_call_def not_found_session_def)
  have "execute_cancellation sample_lib not_found_session sample_adapter 0
          (PDict [(''order_id'', PStr ''o-1''), (''custom_id'', PStr ''long_entry_7''),
                          (''symbol'', PStr ''BTCUSD''), (''price'', PFloat 100.5),
                          (''qty'', PFloat 2), (''side'', PStr ''buy''),
                          (''position_side'', PStr ''long''),
                          (''timestamp'', PFloat 1609459200000)])
     = Inr [(''symbol'', PStr (symbol sample_adapter)), (''side'', PStr ''buy''),
            (''position_side'', PStr ''long''), (''qty'', PFloat 2), (''price'', PFloat 100.5)]"
    by (rule execute_cancellation_ignores_answer
              [where session = not_found_session, OF u _ _ _ _ _ p]) simp_all
  with p show ?thesis by (simp add: resting_order_def sample_adapter_fields)
qed

end
